theory Spec2Isabelle
  imports Main "HOL-Library.Multiset"
begin

section \<open>Strings and records of the expense tracker\<close>

text \<open>
  A JavaScript string is a sequence of UTF-16 code units, and \<open>length\<close>, \<open>slice\<close>,
  \<open>===\<close>, \<open>trim\<close> and the regular expressions of the source all work on code units.
  A string is therefore a list of code units, each a natural number; \<open>str\<close> embeds an
  ASCII literal.
\<close>

type_synonym jsstring = "nat list"

definition str :: "string \<Rightarrow> jsstring" where
  "str s = map of_char s"

text \<open>
  \<open>types/expense.ts\<close>. The field \<open>id\<close> is \<open>eid\<close> here and \<open>note\<close> is \<open>enote\<close>, two
  names Isabelle has taken. \<open>note\<close> and \<open>paymentMethod\<close> are optional in the interface.
  \<open>category\<close> is declared a string, but the objects the code builds at run time may
  carry \<open>undefined\<close> there (see \<open>updateExpense\<close>), so the model of the run-time object
  keeps it optional too; \<open>None\<close> is \<open>undefined\<close> or an absent property (JSON
  serialisation drops an undefined property, so the two are the same once stored).
  \<open>amountCents\<close> is a JavaScript number holding an integer; it is an \<open>int\<close> here, and
  the sums of amounts are exact, as they are in the source as long as they stay below
  2^53.
\<close>

record Expense =
  eid :: jsstring
  amountCents :: int
  currency :: jsstring
  category :: "jsstring option"
  enote :: "jsstring option"
  paidAt :: jsstring
  paymentMethod :: "jsstring option"
  createdAt :: jsstring
  updatedAt :: jsstring

record CategoryTotal =
  tcategory :: "jsstring option"
  totalCents :: int
  expenseCount :: nat

section \<open>Derived views: per-category totals (expense-utils.ts)\<close>

text \<open>
  A JavaScript \<open>Map\<close> keeps its keys in insertion order; \<open>set\<close> on a key already present
  replaces the value where it stands, on a new key appends an entry.
\<close>

fun map_set :: "'k \<Rightarrow> 'v \<Rightarrow> ('k \<times> 'v) list \<Rightarrow> ('k \<times> 'v) list" where
  "map_set k v [] = [(k, v)]"
| "map_set k v ((k', v') # kvs) =
     (if k' = k then (k, v) # kvs else (k', v') # map_set k v kvs)"

definition map_get :: "('k \<times> 'v) list \<Rightarrow> 'k \<Rightarrow> 'v option" where
  "map_get kvs k = map_of kvs k"

text \<open>The body of the \<open>forEach\<close> in \<open>calculateCategoryTotals\<close>.\<close>

definition add_to_totals ::
  "(jsstring option \<times> int \<times> nat) list \<Rightarrow> Expense \<Rightarrow> (jsstring option \<times> int \<times> nat) list" where
  "add_to_totals totals expense =
     (let current = (case map_get totals (category expense) of
                       None \<Rightarrow> (0, 0) | Some c \<Rightarrow> c)
      in map_set (category expense)
           (fst current + amountCents expense, snd current + 1) totals)"

text \<open>
  \<open>Array.prototype.sort\<close> is stable, and the comparator \<open>b.totalCents - a.totalCents\<close>
  orders by descending total: a stable sort on the negated total.
\<close>

definition calculateCategoryTotals :: "Expense list \<Rightarrow> CategoryTotal list" where
  "calculateCategoryTotals expenses =
     sort_key (\<lambda>g. - totalCents g)
       (map (\<lambda>(c, d). \<lparr>tcategory = c, totalCents = fst d, expenseCount = snd d\<rparr>)
          (foldl add_to_totals [] expenses))"

text \<open>Sums over the entries of the totals map, to state what the grouping preserves.\<close>

definition entries_total :: "('k \<times> int \<times> nat) list \<Rightarrow> int" where
  "entries_total kvs = sum_list (map (\<lambda>(k, d). fst d) kvs)"

definition entries_count :: "('k \<times> int \<times> nat) list \<Rightarrow> nat" where
  "entries_count kvs = sum_list (map (\<lambda>(k, d). snd d) kvs)"

section \<open>Sanitization (security.ts)\<close>

text \<open>
  The character classes of the regular expressions, on code units. \<open>\s\<close> and \<open>trim\<close>
  share one set of white space: tab, line feed, vertical tab, form feed, carriage return,
  space, no-break space, the Unicode space separators, the line and paragraph separators
  and the byte order mark U+FEFF.
\<close>

definition is_ws :: "nat \<Rightarrow> bool" where
  "is_ws c = (c \<in> {9, 10, 11, 12, 13, 32, 160, 5760, 8232, 8233, 8239, 8287, 12288, 65279}
              \<or> (8192 \<le> c \<and> c \<le> 8202))"

definition is_digit :: "nat \<Rightarrow> bool" where
  "is_digit c = (48 \<le> c \<and> c \<le> 57)"

definition is_upper :: "nat \<Rightarrow> bool" where
  "is_upper c = (65 \<le> c \<and> c \<le> 90)"

definition is_lower :: "nat \<Rightarrow> bool" where
  "is_lower c = (97 \<le> c \<and> c \<le> 122)"

definition trim :: "jsstring \<Rightarrow> jsstring" where
  "trim s = rev (dropWhile is_ws (rev (dropWhile is_ws s)))"

text \<open>\<open>replace(/\s+/g, ' ')\<close>: every maximal run of white space becomes one space.\<close>

function collapse_ws :: "jsstring \<Rightarrow> jsstring" where
  "collapse_ws [] = []"
| "collapse_ws (c # cs) =
     (if is_ws c then 32 # collapse_ws (dropWhile is_ws cs) else c # collapse_ws cs)"
  by pat_completeness auto
termination
  by (relation "measure length") (auto simp: length_dropWhile_le less_Suc_eq_le)

text \<open>\<open>/[<>\"'&]/\<close>: the characters \<open>sanitizeText\<close> removes.\<close>

definition is_xss :: "nat \<Rightarrow> bool" where
  "is_xss c = (c \<in> {60, 62, 34, 39, 38})"

text \<open>\<open>/[^a-zA-Z0-9\s\-_]/\<close>: \<open>sanitizeCategory\<close> keeps what this accepts.\<close>

definition is_category_char :: "nat \<Rightarrow> bool" where
  "is_category_char c =
     (is_lower c \<or> is_upper c \<or> is_digit c \<or> is_ws c \<or> c = 45 \<or> c = 95)"

text \<open>
  The parameters are typed \<open>string\<close>; the \<open>typeof\<close> guard of the source answers callers
  that pass something else, which the typed model does not have. Where the source calls
  a sanitizer on a possibly undefined value, the caller's model writes that case out.
\<close>

definition sanitizeText :: "jsstring \<Rightarrow> nat \<Rightarrow> jsstring" where
  "sanitizeText input maxLength =
     collapse_ws (filter (\<lambda>c. \<not> is_xss c) (take maxLength (trim input)))"

definition sanitizeCategory :: "jsstring \<Rightarrow> jsstring" where
  "sanitizeCategory input = collapse_ws (filter is_category_char (take 50 (trim input)))"

definition sanitizeAmount :: "jsstring \<Rightarrow> jsstring" where
  "sanitizeAmount input = take 20 (filter (\<lambda>c. is_digit c \<or> c = 46 \<or> c = 44) input)"

section \<open>The clock and the Date object\<close>

text \<open>
  The source reads the clock and formats dates with the built-in \<open>Date\<close>. A time value
  is a number of milliseconds since 1970-01-01T00:00:00Z, an \<open>int\<close>; \<open>None\<close> is the
  Invalid Date. The calendar arithmetic follows ECMAScript's \<open>MakeDay\<close>, \<open>MakeTime\<close>
  and \<open>Date.prototype.toISOString\<close> on the proleptic Gregorian calendar. Local time is
  UTC shifted by a fixed number \<open>tz\<close> of minutes (positive east of Greenwich), a
  parameter of every function that uses it; daylight saving changes are not modelled.
\<close>

definition msPerDay :: int where
  "msPerDay = 86400000"

text \<open>Day number (days since 1970-01-01) of a calendar date, month in 1..12.\<close>

definition days_from_civil :: "int \<Rightarrow> int \<Rightarrow> int \<Rightarrow> int" where
  "days_from_civil y m d =
     (let y' = (if m \<le> 2 then y - 1 else y);
          era = y' div 400;
          yoe = y' mod 400;
          doy = (153 * (if m > 2 then m - 3 else m + 9) + 2) div 5 + d - 1;
          doe = yoe * 365 + yoe div 4 - yoe div 100 + doy
      in era * 146097 + doe - 719468)"

text \<open>The calendar date (year, month 1..12, day) of a day number.\<close>

definition civil_from_days :: "int \<Rightarrow> int \<times> int \<times> int" where
  "civil_from_days z =
     (let z' = z + 719468;
          era = z' div 146097;
          doe = z' mod 146097;
          yoe = (doe - doe div 1460 + doe div 36524 - doe div 146096) div 365;
          y = yoe + era * 400;
          doy = doe - (365 * yoe + yoe div 4 - yoe div 100);
          mp = (5 * doy + 2) div 153;
          d = doy - (153 * mp + 2) div 5 + 1;
          m = (if mp < 10 then mp + 3 else mp - 9)
      in (if m \<le> 2 then y + 1 else y, m, d))"

text \<open>
  \<open>MakeDay(year, month, date)\<close> with a zero-based month index that may lie outside
  0..11 and a day of the month that may lie outside the month: \<open>new Date(y, m, 0)\<close> is
  the day before the first of month \<open>m\<close>.
\<close>

definition MakeDay :: "int \<Rightarrow> int \<Rightarrow> int \<Rightarrow> int" where
  "MakeDay year month date =
     days_from_civil (year + month div 12) (month mod 12 + 1) 1 + date - 1"

text \<open>
  \<open>TimeClip\<close>: a time value more than 8.64e15 milliseconds from the epoch is the
  Invalid Date.
\<close>

definition TimeClip :: "int \<Rightarrow> int option" where
  "TimeClip t = (if \<bar>t\<bar> \<le> 8640000000000000 then Some t else None)"

text \<open>
  \<open>new Date(year, monthIndex, day)\<close>: midnight local time of that day; a year from 0
  to 99 stands for 1900 + year. The result is the time value in UTC.
\<close>

definition Date_local :: "int \<Rightarrow> int \<Rightarrow> int \<Rightarrow> int \<Rightarrow> int option" where
  "Date_local tz year month date =
     (let yr = (if 0 \<le> year \<and> year \<le> 99 then 1900 + year else year)
      in TimeClip (MakeDay yr month date * msPerDay - tz * 60000))"

text \<open>Decimal digits of a natural number, and padding with zeros on the left.\<close>

fun to_dec :: "nat \<Rightarrow> jsstring" where
  "to_dec n = (if n < 10 then [48 + n] else to_dec (n div 10) @ [48 + n mod 10])"

declare to_dec.simps [simp del]

definition pad :: "nat \<Rightarrow> nat \<Rightarrow> jsstring" where
  "pad k n = replicate (k - length (to_dec n)) 48 @ to_dec n"

text \<open>
  \<open>toISOString\<close>: \<open>YYYY-MM-DDTHH:mm:ss.sssZ\<close> in UTC; a year outside 0..9999 is written
  with a sign and six digits.
\<close>

definition iso_year :: "int \<Rightarrow> jsstring" where
  "iso_year y =
     (if 0 \<le> y \<and> y \<le> 9999 then pad 4 (nat y)
      else (if y < 0 then 45 else 43) # pad 6 (nat \<bar>y\<bar>))"

definition toISOString :: "int \<Rightarrow> jsstring" where
  "toISOString t =
     (let day = t div msPerDay;
          ms = nat (t mod msPerDay);
          ymd = civil_from_days day
      in iso_year (fst ymd) @ [45] @ pad 2 (nat (fst (snd ymd))) @ [45]
           @ pad 2 (nat (snd (snd ymd))) @ [84]
           @ pad 2 (ms div 3600000) @ [58] @ pad 2 (ms div 60000 mod 60) @ [58]
           @ pad 2 (ms div 1000 mod 60) @ [46] @ pad 3 (ms mod 1000) @ [90])"

text \<open>
  \<open>s.split(c)\<close> on a one-character separator: the pieces between the separators, at
  least one piece.
\<close>

fun split :: "nat \<Rightarrow> jsstring \<Rightarrow> jsstring list" where
  "split sep [] = [[]]"
| "split sep (c # cs) =
     (if c = sep then [] # split sep cs
      else (case split sep cs of p # ps \<Rightarrow> (c # p) # ps | [] \<Rightarrow> [[c]]))"

text \<open>\<open>s.split('T')[0]\<close>: the part before the first \<open>T\<close>.\<close>

definition before_T :: "jsstring \<Rightarrow> jsstring" where
  "before_T s = (case split 84 s of p # ps \<Rightarrow> p | [] \<Rightarrow> [])"

section \<open>Schema validation (security.ts)\<close>

record Budget =
  bid :: jsstring
  yearMonth :: jsstring
  bcategory :: "jsstring option"
  limitCents :: int

datatype Theme = System | Light | Dark

text \<open>
  The settings objects of the source at run time: the stored blob, the
  \<open>Partial<Settings>\<close> argument of \<open>saveSettings\<close> and the objects merged from them by
  object spread. Every property may be missing; \<open>None\<close> is a missing or undefined
  property.
\<close>

record Settings =
  scurrency :: "jsstring option"
  categories :: "jsstring list option"
  monthlyBudget :: "int option"
  theme :: "Theme option"

text \<open>
  The two string formats checked by the zod library itself, \<open>z.string().uuid()\<close> and
  \<open>z.string().datetime()\<close>, are parameters of the schemas: the library is not part of
  the repository and its accepted formats differ between its versions.
\<close>

record Zod =
  zod_uuid :: "jsstring \<Rightarrow> bool"
  zod_datetime :: "jsstring \<Rightarrow> bool"

text \<open>\<open>/^[A-Z]{3}$/\<close> together with \<open>length(3)\<close>.\<close>

definition is_currency_code :: "jsstring \<Rightarrow> bool" where
  "is_currency_code s = (length s = 3 \<and> list_all is_upper s)"

text \<open>\<open>/^\d{4}-\d{2}-\d{2}$/\<close>\<close>

definition is_date_only :: "jsstring \<Rightarrow> bool" where
  "is_date_only s =
     (length s = 10 \<and> list_all is_digit (take 4 s) \<and> take 1 (drop 4 s) = [45]
      \<and> list_all is_digit (take 2 (drop 5 s)) \<and> take 1 (drop 7 s) = [45]
      \<and> list_all is_digit (drop 8 s))"

text \<open>\<open>/^\d{4}-\d{2}$/\<close>\<close>

definition is_year_month :: "jsstring \<Rightarrow> bool" where
  "is_year_month s =
     (length s = 7 \<and> list_all is_digit (take 4 s) \<and> take 1 (drop 4 s) = [45]
      \<and> list_all is_digit (drop 5 s))"

definition max_len :: "nat \<Rightarrow> jsstring option \<Rightarrow> bool" where
  "max_len n s = (case s of None \<Rightarrow> True | Some t \<Rightarrow> length t \<le> n)"

definition ExpenseSchema :: "Zod \<Rightarrow> Expense \<Rightarrow> bool" where
  "ExpenseSchema z e =
     (zod_uuid z (eid e)
      \<and> 1 \<le> amountCents e \<and> amountCents e \<le> 100000000
      \<and> is_currency_code (currency e)
      \<and> (case category e of None \<Rightarrow> False | Some c \<Rightarrow> 1 \<le> length c \<and> length c \<le> 50)
      \<and> max_len 500 (enote e)
      \<and> is_date_only (paidAt e)
      \<and> max_len 50 (paymentMethod e)
      \<and> zod_datetime z (createdAt e)
      \<and> zod_datetime z (updatedAt e))"

definition BudgetSchema :: "Zod \<Rightarrow> Budget \<Rightarrow> bool" where
  "BudgetSchema z b =
     (zod_uuid z (bid b)
      \<and> is_year_month (yearMonth b)
      \<and> max_len 50 (bcategory b)
      \<and> 0 \<le> limitCents b \<and> limitCents b \<le> 100000000)"

definition SettingsSchema :: "Settings \<Rightarrow> bool" where
  "SettingsSchema s =
     ((case scurrency s of None \<Rightarrow> False | Some c \<Rightarrow> is_currency_code c)
      \<and> (case categories s of None \<Rightarrow> False
          | Some cs \<Rightarrow> list_all (\<lambda>c. 1 \<le> length c \<and> length c \<le> 50) cs \<and> length cs \<le> 20)
      \<and> (case monthlyBudget s of None \<Rightarrow> True | Some b \<Rightarrow> 0 \<le> b \<and> b \<le> 100000000))"

definition validateExpenseData :: "Zod \<Rightarrow> Expense list \<Rightarrow> bool" where
  "validateExpenseData z data = list_all (ExpenseSchema z) data"

definition validateBudgetData :: "Zod \<Rightarrow> Budget list \<Rightarrow> bool" where
  "validateBudgetData z data = list_all (BudgetSchema z) data"

definition validateSettingsData :: "Settings \<Rightarrow> bool" where
  "validateSettingsData data = SettingsSchema data"

section \<open>The rate limiter (security.ts)\<close>

text \<open>
  \<open>operationCounts\<close> maps an operation name to its count and the time its window ends.
  \<open>checkRateLimit\<close> returns its verdict and the updated map.
\<close>

type_synonym counters = "(jsstring \<times> nat \<times> int) list"

definition checkRateLimit ::
  "jsstring \<Rightarrow> nat \<Rightarrow> int \<Rightarrow> int \<Rightarrow> counters \<Rightarrow> bool \<times> counters" where
  "checkRateLimit operation maxOps windowMs now_ms counts =
     (case map_get counts operation of
        None \<Rightarrow> (True, map_set operation (1, now_ms + windowMs) counts)
      | Some (cnt, resetTime) \<Rightarrow>
          if now_ms > resetTime then (True, map_set operation (1, now_ms + windowMs) counts)
          else if cnt \<ge> maxOps then (False, counts)
          else (True, map_set operation (cnt + 1, resetTime) counts))"

section \<open>The record store (storage.ts)\<close>

text \<open>
  The state the store works on: the three blobs of local storage, as the values
  \<open>JSON.parse\<close> gives back, and the counters of the rate limiter. \<open>None\<close> for a blob is a
  missing key, text that does not parse, or a value of another shape than the records
  here; each of them reads as the empty or default value.
\<close>

record Store =
  ls_expenses :: "Expense list option"
  ls_budgets :: "Budget list option"
  ls_settings :: "Settings option"
  operationCounts :: counters

text \<open>
  What one call takes from outside: the clock (milliseconds since the epoch; a call is
  taken to run within one tick), the identifier \<open>crypto.randomUUID()\<close> returns, and
  whether \<open>localStorage.setItem\<close> succeeds (it throws when the quota is exceeded).
\<close>

record Env =
  now :: int
  randomUUID :: jsstring
  setItem_ok :: bool

text \<open>The errors thrown, one constructor for each message of the source.\<close>

datatype error =
    TooManySaveOperations \<comment> \<open>Too many save operations, please wait\<close>
  | TooManyOperations \<comment> \<open>Too many operations, please wait\<close>
  | InvalidExpenseData \<comment> \<open>Invalid expense data cannot be saved\<close>
  | FailedToSaveExpenses \<comment> \<open>Failed to save expenses - storage may be full\<close>
  | InvalidBudgetData \<comment> \<open>Invalid budget data cannot be saved\<close>
  | FailedToSaveBudgets \<comment> \<open>Failed to save budgets - storage may be full\<close>
  | InvalidSettingsData \<comment> \<open>Invalid settings data cannot be saved\<close>
  | FailedToSaveSettings \<comment> \<open>Failed to save settings - storage may be full\<close>
  | NoExpensesToExport \<comment> \<open>No expenses to export\<close>


definition is_validation_error :: "error \<Rightarrow> bool" where
  "is_validation_error e =
     (e = InvalidExpenseData \<or> e = InvalidBudgetData \<or> e = InvalidSettingsData)"

definition getExpenses :: "Zod \<Rightarrow> Store \<Rightarrow> Expense list" where
  "getExpenses z st =
     (case ls_expenses st of
        None \<Rightarrow> []
      | Some stored \<Rightarrow> if \<not> validateExpenseData z stored then [] else stored)"

definition saveExpenses :: "Zod \<Rightarrow> Env \<Rightarrow> Expense list \<Rightarrow> Store \<Rightarrow> (error + unit) \<times> Store" where
  "saveExpenses z env expenses st =
     (let (allowed, counts) =
            checkRateLimit (str ''saveExpenses'') 50 60000 (now env) (operationCounts st);
          st1 = st\<lparr>operationCounts := counts\<rparr>
      in if \<not> allowed then (Inl TooManySaveOperations, st1)
         else if \<not> validateExpenseData z expenses then (Inl InvalidExpenseData, st1)
         else if \<not> setItem_ok env then (Inl FailedToSaveExpenses, st1)
         else (Inr (), st1\<lparr>ls_expenses := Some expenses\<rparr>))"

text \<open>A string in a condition is true when it is not empty; \<open>undefined\<close> is false.\<close>

definition truthy :: "jsstring option \<Rightarrow> bool" where
  "truthy s = (case s of None \<Rightarrow> False | Some t \<Rightarrow> t \<noteq> [])"


text \<open>
  \<open>Partial<Expense>\<close>, the argument of \<open>updateExpense\<close>: every property optional, \<open>None\<close>
  a property that is missing.
\<close>

record ExpenseUpdates =
  u_id :: "jsstring option"
  u_amountCents :: "int option"
  u_currency :: "jsstring option"
  u_category :: "jsstring option"
  u_note :: "jsstring option"
  u_paidAt :: "jsstring option"
  u_paymentMethod :: "jsstring option"
  u_createdAt :: "jsstring option"
  u_updatedAt :: "jsstring option"

text \<open>\<open>findIndex\<close>: the first index whose element satisfies the predicate; \<open>None\<close> is -1.\<close>

fun findIndex :: "('a \<Rightarrow> bool) \<Rightarrow> 'a list \<Rightarrow> nat option" where
  "findIndex P [] = None"
| "findIndex P (x # xs) =
     (if P x then Some 0 else map_option Suc (findIndex P xs))"

text \<open>
  Object spread \<open>{...old, ...new}\<close> on one property: the property of \<open>new\<close> wins when
  \<open>new\<close> has it.
\<close>

definition spread :: "'a \<Rightarrow> 'a option \<Rightarrow> 'a" where
  "spread old new = (case new of None \<Rightarrow> old | Some v \<Rightarrow> v)"

text \<open>
  \<open>updateExpense\<close>. \<open>sanitizedUpdates\<close> always has the three properties \<open>category\<close>,
  \<open>note\<close> and \<open>paymentMethod\<close>, with the value \<open>undefined\<close> when the update has none or an
  empty one; spread over the stored record, a property that is present with the value
  \<open>undefined\<close> replaces the stored value.
\<close>

definition updateExpense ::
  "Zod \<Rightarrow> Env \<Rightarrow> jsstring \<Rightarrow> ExpenseUpdates \<Rightarrow> Store \<Rightarrow> (error + Expense option) \<times> Store" where
  "updateExpense z env ident updates st =
     (let (allowed, counts) =
            checkRateLimit (str ''updateExpense'') 100 60000 (now env) (operationCounts st);
          st1 = st\<lparr>operationCounts := counts\<rparr>
      in if \<not> allowed then (Inl TooManyOperations, st1)
         else
           let expenses = getExpenses z st1
           in case findIndex (\<lambda>e. eid e = ident) expenses of
                None \<Rightarrow> (Inr None, st1)
              | Some index \<Rightarrow>
                  let old = expenses ! index;
                      updatedExpense =
                        \<lparr>eid = spread (eid old) (u_id updates),
                         amountCents = spread (amountCents old) (u_amountCents updates),
                         currency = spread (currency old) (u_currency updates),
                         category = (if truthy (u_category updates)
                                     then map_option sanitizeCategory (u_category updates)
                                     else None),
                         enote = (if truthy (u_note updates)
                                  then map_option (\<lambda>n. sanitizeText n 500) (u_note updates)
                                  else None),
                         paidAt = spread (paidAt old) (u_paidAt updates),
                         paymentMethod = (if truthy (u_paymentMethod updates)
                                  then map_option (\<lambda>p. sanitizeText p 50)
                                         (u_paymentMethod updates)
                                  else None),
                         createdAt = spread (createdAt old) (u_createdAt updates),
                         updatedAt = toISOString (now env)\<rparr>
                  in (case saveExpenses z env (list_update expenses index updatedExpense) st1 of
                        (Inl err, st2) \<Rightarrow> (Inl err, st2)
                      | (Inr u, st2) \<Rightarrow> (Inr (Some updatedExpense), st2)))"


definition getBudgets :: "Zod \<Rightarrow> Store \<Rightarrow> Budget list" where
  "getBudgets z st =
     (case ls_budgets st of
        None \<Rightarrow> []
      | Some stored \<Rightarrow> if \<not> validateBudgetData z stored then [] else stored)"

definition saveBudgets :: "Zod \<Rightarrow> Env \<Rightarrow> Budget list \<Rightarrow> Store \<Rightarrow> (error + unit) \<times> Store" where
  "saveBudgets z env budgets st =
     (if \<not> validateBudgetData z budgets then (Inl InvalidBudgetData, st)
      else if \<not> setItem_ok env then (Inl FailedToSaveBudgets, st)
      else (Inr (), st\<lparr>ls_budgets := Some budgets\<rparr>))"

definition setBudget ::
  "Zod \<Rightarrow> Env \<Rightarrow> jsstring \<Rightarrow> int \<Rightarrow> jsstring option \<Rightarrow> Store \<Rightarrow> (error + Budget) \<times> Store" where
  "setBudget z env ym limit cat st =
     (let budgets = getBudgets z st;
          existingIndex = findIndex (\<lambda>b. yearMonth b = ym \<and> bcategory b = cat) budgets;
          budget = \<lparr>bid = (case existingIndex of
                             Some i \<Rightarrow> bid (budgets ! i) | None \<Rightarrow> randomUUID env),
                    yearMonth = ym, bcategory = cat, limitCents = limit\<rparr>;
          budgets' = (case existingIndex of
                        Some i \<Rightarrow> list_update budgets i budget | None \<Rightarrow> budgets @ [budget])
      in case saveBudgets z env budgets' st of
           (Inl err, st1) \<Rightarrow> (Inl err, st1)
         | (Inr u, st1) \<Rightarrow> (Inr budget, st1))"

definition defaultSettings :: Settings where
  "defaultSettings =
     \<lparr>scurrency = Some (str ''EUR''),
      categories = Some [str ''Food'', str ''Groceries'', str ''Transport'', str ''Bills'',
                         str ''Entertainment'', str ''Health'', str ''Shopping'', str ''Other''],
      monthlyBudget = None,
      theme = Some System\<rparr>"

text \<open>\<open>{...a, ...b}\<close> on settings objects.\<close>

definition spread_opt :: "'a option \<Rightarrow> 'a option \<Rightarrow> 'a option" where
  "spread_opt old new = (case new of None \<Rightarrow> old | Some v \<Rightarrow> Some v)"

definition getSettings :: "Store \<Rightarrow> Settings" where
  "getSettings st =
     (case ls_settings st of
        None \<Rightarrow> defaultSettings
      | Some stored \<Rightarrow>
          let merged = \<lparr>scurrency = spread_opt (scurrency defaultSettings) (scurrency stored),
                        categories = spread_opt (categories defaultSettings) (categories stored),
                        monthlyBudget =
                          spread_opt (monthlyBudget defaultSettings) (monthlyBudget stored),
                        theme = spread_opt (theme defaultSettings) (theme stored)\<rparr>
          in if \<not> validateSettingsData merged then defaultSettings else merged)"

text \<open>
  \<open>saveSettings\<close>. \<open>sanitizedSettings\<close> always has the property \<open>categories\<close>: the
  sanitized names without the empty ones (\<open>filter(Boolean)\<close>), or \<open>undefined\<close> when the
  argument has no categories.
\<close>

definition saveSettings :: "Env \<Rightarrow> Settings \<Rightarrow> Store \<Rightarrow> (error + unit) \<times> Store" where
  "saveSettings env settings st =
     (let current = getSettings st;
          updated = \<lparr>scurrency = spread_opt (scurrency current) (scurrency settings),
                     categories = map_option (\<lambda>cs. filter (\<lambda>c. c \<noteq> []) (map sanitizeCategory cs))
                                    (categories settings),
                     monthlyBudget = spread_opt (monthlyBudget current) (monthlyBudget settings),
                     theme = spread_opt (theme current) (theme settings)\<rparr>
      in if \<not> validateSettingsData updated then (Inl InvalidSettingsData, st)
         else if \<not> setItem_ok env then (Inl FailedToSaveSettings, st)
         else (Inr (), st\<lparr>ls_settings := Some updated\<rparr>))"

text \<open>The pair that identifies a budget: the month and the category, which may be absent.\<close>

definition budget_key :: "Budget \<Rightarrow> jsstring \<times> jsstring option" where
  "budget_key b = (yearMonth b, bcategory b)"

section \<open>Derived views: month scoping and entry validation (expense-utils.ts)\<close>

text \<open>
  \<open>Number(s)\<close> on the pieces of a month key. The model reads decimal integers: white
  space around the text is dropped, the empty text is 0, an optional sign may precede
  the digits. Every other text reads as \<open>NaN\<close>, here \<open>None\<close>; the further numeric
  literals of JavaScript (fractions, exponents, hexadecimal, \<open>Infinity\<close>) are outside the
  model.
\<close>

definition digits_value :: "jsstring \<Rightarrow> nat" where
  "digits_value ds = foldl (\<lambda>a c. 10 * a + (c - 48)) 0 ds"

definition Number :: "jsstring \<Rightarrow> int option" where
  "Number s =
     (let t = trim s
      in if t = [] then Some 0
         else if hd t = 45 \<and> tl t \<noteq> [] \<and> list_all is_digit (tl t)
              then Some (- int (digits_value (tl t)))
         else if hd t = 43 \<and> tl t \<noteq> [] \<and> list_all is_digit (tl t)
              then Some (int (digits_value (tl t)))
         else if list_all is_digit t then Some (int (digits_value t))
         else None)"

text \<open>
  \<open>getMonthRange\<close>. The two dates are built in local time and printed in UTC.
  \<open>toISOString\<close> throws a \<open>RangeError\<close> on an Invalid Date, which is what the
  constructor gives when the year or the month is \<open>NaN\<close> or missing; \<open>None\<close> is that
  exception.
\<close>

definition getMonthRange :: "int \<Rightarrow> jsstring \<Rightarrow> (jsstring \<times> jsstring) option" where
  "getMonthRange tz ym =
     (case map Number (split 45 ym) of
        Some year # Some month # rest \<Rightarrow>
          (case (Date_local tz year (month - 1) 1, Date_local tz year month 0) of
             (Some startDate, Some endDate) \<Rightarrow>
               Some (before_T (toISOString startDate), before_T (toISOString endDate))
           | _ \<Rightarrow> None)
      | _ \<Rightarrow> None)"

text \<open>\<open><=\<close> on strings: the order of the code units, a proper prefix first.\<close>

fun js_le :: "jsstring \<Rightarrow> jsstring \<Rightarrow> bool" where
  "js_le [] t = True"
| "js_le (a # as) [] = False"
| "js_le (a # as) (b # bs) = (a < b \<or> (a = b \<and> js_le as bs))"

definition getExpensesForMonth :: "int \<Rightarrow> Expense list \<Rightarrow> jsstring \<Rightarrow> Expense list option" where
  "getExpensesForMonth tz expenses ym =
     (case getMonthRange tz ym of
        None \<Rightarrow> None
      | Some (first_day, last_day) \<Rightarrow>
          Some (filter (\<lambda>expense. js_le first_day (paidAt expense)
                                   \<and> js_le (paidAt expense) last_day)
                  expenses))"

text \<open>
  \<open>new Date(text)\<close> is a parameter of the functions that call it, a function from the
  text to a time value or the Invalid Date (\<open>None\<close>): outside the ISO format the
  accepted texts depend on the JavaScript engine. \<open>Date_parse\<close> is the instance for the
  ISO format, date only (\<open>YYYY-MM-DD\<close>, midnight UTC) or with time
  (\<open>YYYY-MM-DDTHH:mm:ss.sssZ\<close>), with the month and the day in their calendar range.
\<close>

definition days_in_month :: "int \<Rightarrow> int \<Rightarrow> int" where
  "days_in_month y m = days_from_civil (y + m div 12) (m mod 12 + 1) 1 - days_from_civil y m 1"

definition parse_ymd :: "jsstring \<Rightarrow> int option" where
  "parse_ymd s =
     (if \<not> is_date_only s then None
      else let y = int (digits_value (take 4 s));
               m = int (digits_value (take 2 (drop 5 s)));
               d = int (digits_value (drop 8 s))
           in if 1 \<le> m \<and> m \<le> 12 \<and> 1 \<le> d \<and> d \<le> days_in_month y m
              then Some (days_from_civil y m d * msPerDay) else None)"

definition parse_hms :: "jsstring \<Rightarrow> int option" where
  "parse_hms s =
     (if length s = 14 \<and> take 1 s = [84] \<and> list_all is_digit (take 2 (drop 1 s))
         \<and> take 1 (drop 3 s) = [58] \<and> list_all is_digit (take 2 (drop 4 s))
         \<and> take 1 (drop 6 s) = [58] \<and> list_all is_digit (take 2 (drop 7 s))
         \<and> take 1 (drop 9 s) = [46] \<and> list_all is_digit (take 3 (drop 10 s))
         \<and> drop 13 s = [90]
      then let h = int (digits_value (take 2 (drop 1 s)));
               mi = int (digits_value (take 2 (drop 4 s)));
               sec = int (digits_value (take 2 (drop 7 s)));
               ms = int (digits_value (take 3 (drop 10 s)))
           in if h \<le> 23 \<and> mi \<le> 59 \<and> sec \<le> 59
              then Some (h * 3600000 + mi * 60000 + sec * 1000 + ms) else None
      else None)"

definition Date_parse :: "jsstring \<Rightarrow> int option" where
  "Date_parse s =
     (case parse_ymd (take 10 s) of
        None \<Rightarrow> None
      | Some day_ms \<Rightarrow>
          if drop 10 s = [] then Some day_ms
          else map_option (\<lambda>t. day_ms + t) (parse_hms (drop 10 s)))"

text \<open>
  \<open>today.setHours(23, 59, 59, 999)\<close>: the last millisecond of the local day of the time
  value.
\<close>

definition end_of_local_day :: "int \<Rightarrow> int \<Rightarrow> int" where
  "end_of_local_day tz t =
     ((t + tz * 60000) div msPerDay) * msPerDay + 86399999 - tz * 60000"

text \<open>
  \<open>validateExpense\<close> of \<open>src/lib/expense-utils.ts\<close>, on a \<open>Partial<Expense>\<close>. The
  messages are pushed in the order of the three checks. A comparison with the Invalid
  Date is false.
\<close>

definition validateExpense ::
  "(jsstring \<Rightarrow> int option) \<Rightarrow> int \<Rightarrow> int \<Rightarrow> ExpenseUpdates \<Rightarrow> jsstring list" where
  "validateExpense parse tz now_ms expense =
     (if (case u_amountCents expense of None \<Rightarrow> True | Some a \<Rightarrow> a = 0 \<or> a \<le> 0)
      then [str ''Amount must be greater than 0''] else [])
     @ (if \<not> truthy (u_category expense) then [str ''Category is required''] else [])
     @ (case u_paidAt expense of
          None \<Rightarrow> []
        | Some p \<Rightarrow>
            if p = [] then []
            else (case parse p of
                    None \<Rightarrow> []
                  | Some paidDate \<Rightarrow>
                      if paidDate > end_of_local_day tz now_ms
                      then [str ''Date cannot be in the future''] else []))"

section \<open>The import and export codec (csv-utils.ts)\<close>

text \<open>\<open>xs.join(sep)\<close>\<close>

fun join :: "jsstring \<Rightarrow> jsstring list \<Rightarrow> jsstring" where
  "join sep [] = []"
| "join sep [x] = x"
| "join sep (x # y # ys) = x @ sep @ join sep (y # ys)"

text \<open>
  \<open>(amountCents / 100).toFixed(2)\<close>. For an integer number of cents the quotient is
  printed with two decimals; the division and the printing are done on IEEE doubles in
  the source and exactly here, which agrees for the amounts the schema admits.
\<close>

definition toFixed2 :: "int \<Rightarrow> jsstring" where
  "toFixed2 cents =
     (if cents < 0 then [45] else [])
     @ to_dec (nat \<bar>cents\<bar> div 100) @ [46] @ pad 2 (nat \<bar>cents\<bar> mod 100)"

definition or_empty :: "jsstring option \<Rightarrow> jsstring" where
  "or_empty s = (case s of None \<Rightarrow> [] | Some t \<Rightarrow> t)"

definition csv_headers :: "jsstring list" where
  "csv_headers =
     [str ''date'', str ''amount'', str ''currency'', str ''category'', str ''note'',
      str ''payment_method'']"

text \<open>
  \<open>exportToCSV\<close>. The byte order mark is the code unit U+FEFF. \<open>join\<close> prints an
  undefined element as the empty text.
\<close>

definition exportToCSV :: "Expense list \<Rightarrow> error + jsstring" where
  "exportToCSV expenses =
     (if expenses = [] then Inl NoExpensesToExport
      else
        let rows = map (\<lambda>expense.
                     [before_T (paidAt expense), toFixed2 (amountCents expense),
                      currency expense, or_empty (category expense),
                      or_empty (enote expense), or_empty (paymentMethod expense)]) expenses;
            csvContent = join [10] (join [44] csv_headers # map (join [44]) rows)
        in Inr (65279 # csvContent))"

text \<open>
  \<open>parseFloat\<close>: white space, an optional sign, digits with an optional fraction, an
  optional exponent; what follows is ignored. The value is the pair \<open>(m, e)\<close> standing
  for \<open>m * 10^e\<close>, exact where the source has the nearest IEEE double; \<open>None\<close> is \<open>NaN\<close>.
  The text \<open>Infinity\<close> is outside the model and reads as \<open>NaN\<close>.
\<close>

definition parse_exponent :: "jsstring \<Rightarrow> int" where
  "parse_exponent r =
     (if r \<noteq> [] \<and> (hd r = 101 \<or> hd r = 69)
      then let r1 = tl r;
               neg = (r1 \<noteq> [] \<and> hd r1 = 45);
               r2 = (if r1 \<noteq> [] \<and> (hd r1 = 45 \<or> hd r1 = 43) then tl r1 else r1);
               ds = takeWhile is_digit r2
           in if ds = [] then 0
              else if neg then - int (digits_value ds) else int (digits_value ds)
      else 0)"

definition parseFloat :: "jsstring \<Rightarrow> (int \<times> int) option" where
  "parseFloat s =
     (let t = dropWhile is_ws s;
          neg = (t \<noteq> [] \<and> hd t = 45);
          t1 = (if t \<noteq> [] \<and> (hd t = 45 \<or> hd t = 43) then tl t else t);
          ip = takeWhile is_digit t1;
          r1 = dropWhile is_digit t1;
          has_point = (r1 \<noteq> [] \<and> hd r1 = 46);
          fp = (if has_point then takeWhile is_digit (tl r1) else []);
          r2 = (if has_point then dropWhile is_digit (tl r1) else r1)
      in if ip = [] \<and> fp = [] then None
         else let m = int (digits_value (ip @ fp))
              in Some (if neg then - m else m, parse_exponent r2 - int (length fp)))"

text \<open>\<open>Math.round(amount * 100)\<close>: the nearest integer, a half rounded up.\<close>

definition round_cents :: "int \<times> int \<Rightarrow> int" where
  "round_cents a =
     (let m = fst a; e = snd a + 2
      in if 0 \<le> e then m * 10 ^ nat e
         else (2 * m + 10 ^ nat (- e)) div (2 * 10 ^ nat (- e)))"

text \<open>
  A row object: the property names with their values, as the import builds it from the
  header line. A property that was never set reads as \<open>undefined\<close>.
\<close>

type_synonym csv_row = "(jsstring \<times> jsstring) list"

definition row_prop :: "csv_row \<Rightarrow> string \<Rightarrow> jsstring option" where
  "row_prop row name = map_get row (str name)"

text \<open>
  \<open>createExpenseFromCSVRow\<close>. \<open>parse\<close> is \<open>new Date(text)\<close>. The \<open>try\<close> block of the
  source catches nothing the model can raise: \<open>toISOString\<close> is called on a valid date
  only.
\<close>

definition createExpenseFromCSVRow ::
  "(jsstring \<Rightarrow> int option) \<Rightarrow> Env \<Rightarrow> csv_row \<Rightarrow> jsstring \<Rightarrow> Expense list \<Rightarrow> bool
     \<Rightarrow> Expense option" where
  "createExpenseFromCSVRow parse env row defaultCurrency existingExpenses allowDuplicates =
     (if \<not> truthy (row_prop row ''date'') \<or> \<not> truthy (row_prop row ''amount'')
         \<or> \<not> truthy (row_prop row ''category'')
      then None
      else case parse (or_empty (row_prop row ''date'')) of
        None \<Rightarrow> None
      | Some date \<Rightarrow>
          (case parseFloat (or_empty (row_prop row ''amount'')) of
             None \<Rightarrow> None
           | Some amount \<Rightarrow>
               if fst amount \<le> 0 then None
               else if \<not> allowDuplicates
                       \<and> list_ex (\<lambda>exp.
                             before_T (paidAt exp) = or_empty (row_prop row ''date'')
                             \<and> amountCents exp = round_cents amount
                             \<and> category exp = row_prop row ''category''
                             \<and> enote exp = Some (if truthy (row_prop row ''note'')
                                                 then or_empty (row_prop row ''note'') else []))
                           existingExpenses
               then None
               else Some
                 \<lparr>eid = randomUUID env,
                  amountCents = round_cents amount,
                  currency = (if truthy (row_prop row ''currency'')
                              then or_empty (row_prop row ''currency'') else defaultCurrency),
                  category = Some (trim (or_empty (row_prop row ''category''))),
                  enote = (if truthy (map_option trim (row_prop row ''note''))
                           then map_option trim (row_prop row ''note'') else None),
                  paidAt = toISOString date,
                  paymentMethod = (if truthy (map_option trim (row_prop row ''payment_method''))
                           then map_option trim (row_prop row ''payment_method'') else None),
                  createdAt = toISOString (now env),
                  updatedAt = toISOString (now env)\<rparr>))"

text \<open>\<open>validateCSVHeaders\<close>: the messages for missing and for unknown columns.\<close>

definition validateCSVHeaders :: "jsstring list \<Rightarrow> jsstring list" where
  "validateCSVHeaders headers =
     (let missingHeaders = filter (\<lambda>h. h \<notin> set headers)
                             [str ''date'', str ''amount'', str ''category''];
          invalidHeaders = filter (\<lambda>h. h \<notin> set csv_headers) headers
      in (if missingHeaders \<noteq> []
          then [str ''Missing required columns: '' @ join (str '', '') missingHeaders]
          else [])
         @ (if invalidHeaders \<noteq> []
            then [str ''Unknown columns will be ignored: '' @ join (str '', '') invalidHeaders]
            else []))"

text \<open>
  The import of the settings page, which is the caller of \<open>createExpenseFromCSVRow\<close>:
  the text is cut into lines and the lines into values, each line becomes a row object
  keyed by the header line, and the rows that give an expense are collected. The result
  is the number of imported rows, the number of skipped rows and the new expenses, or
  \<open>None\<close> when the header line is refused. \<open>uuids\<close> gives the identifier generated for
  the line of each index.
\<close>

definition value_at :: "jsstring list \<Rightarrow> nat \<Rightarrow> jsstring" where
  "value_at values i = (if i < length values then values ! i else [])"

definition make_row :: "jsstring list \<Rightarrow> jsstring list \<Rightarrow> csv_row" where
  "make_row headers values =
     foldl (\<lambda>row (header, i). map_set header (value_at values i) row) []
       (zip headers [0 ..< length headers])"

fun import_lines ::
  "(jsstring \<Rightarrow> int option) \<Rightarrow> Env \<Rightarrow> (nat \<Rightarrow> jsstring) \<Rightarrow> jsstring list \<Rightarrow> jsstring
     \<Rightarrow> Expense list \<Rightarrow> bool \<Rightarrow> nat \<Rightarrow> jsstring list \<Rightarrow> nat \<times> nat \<times> Expense list" where
  "import_lines parse env uuids headers cur expenses allow i [] = (0, 0, [])"
| "import_lines parse env uuids headers cur expenses allow i (l # ls) =
     (let rest = import_lines parse env uuids headers cur expenses allow (Suc i) ls;
          line = trim l
      in if line = [] then rest
         else case createExpenseFromCSVRow parse (env\<lparr>randomUUID := uuids i\<rparr>)
                     (make_row headers (map trim (split 44 line))) cur expenses allow of
                None \<Rightarrow> (fst rest, Suc (fst (snd rest)), snd (snd rest))
              | Some expense \<Rightarrow> (Suc (fst rest), fst (snd rest), expense # snd (snd rest)))"

definition importCSV ::
  "(jsstring \<Rightarrow> int option) \<Rightarrow> Env \<Rightarrow> (nat \<Rightarrow> jsstring) \<Rightarrow> jsstring \<Rightarrow> jsstring
     \<Rightarrow> Expense list \<Rightarrow> bool \<Rightarrow> (nat \<times> nat \<times> Expense list) option" where
  "importCSV parse env uuids csvContent cur expenses allow =
     (case split 10 csvContent of
        [] \<Rightarrow> None
      | first_line # ls \<Rightarrow>
          let headers = map trim (split 44 first_line)
          in if validateCSVHeaders headers \<noteq> [] then None
             else Some (import_lines parse env uuids headers cur expenses allow 1 ls))"

section \<open>Sample data\<close>

text \<open>Concrete values at which the theorems below are instantiated.\<close>

definition twenty_one_names :: "jsstring list" where
  "twenty_one_names =
     [str ''Food'', str ''Groceries'', str ''Transport'', str ''Bills'', str ''Entertainment'',
      str ''Health'', str ''Shopping'', str ''Other'', str ''Rent'', str ''Travel'',
      str ''Gifts'', str ''Pets'', str ''Sports'', str ''Books'', str ''Music'',
      str ''Coffee'', str ''Taxes'', str ''School'', str ''Garden'', str ''Phone'',
      str ''Insurance'']"

definition empty_store :: Store where
  "empty_store =
     \<lparr>ls_expenses = None, ls_budgets = None, ls_settings = None, operationCounts = []\<rparr>"

text \<open>A call at 2024-03-15T12:00:00Z whose write succeeds.\<close>

definition env0 :: Env where
  "env0 = \<lparr>now = 1710504000000,
           randomUUID = str ''123e4567-e89b-42d3-a456-426614174000'',
           setItem_ok = True\<rparr>"

text \<open>
  One instance of the two formats the zod library checks: a UUID as five groups of
  hexadecimal digits, and an ISO date and time in UTC with milliseconds.
\<close>

definition is_hex :: "nat \<Rightarrow> bool" where
  "is_hex c = (is_digit c \<or> (97 \<le> c \<and> c \<le> 102) \<or> (65 \<le> c \<and> c \<le> 70))"

definition uuid_format :: "jsstring \<Rightarrow> bool" where
  "uuid_format s =
     (length s = 36 \<and> list_all is_hex (take 8 s) \<and> take 1 (drop 8 s) = [45]
      \<and> list_all is_hex (take 4 (drop 9 s)) \<and> take 1 (drop 13 s) = [45]
      \<and> list_all is_hex (take 4 (drop 14 s)) \<and> take 1 (drop 18 s) = [45]
      \<and> list_all is_hex (take 4 (drop 19 s)) \<and> take 1 (drop 23 s) = [45]
      \<and> list_all is_hex (drop 24 s))"

definition datetime_format :: "jsstring \<Rightarrow> bool" where
  "datetime_format s =
     (length s = 24 \<and> is_date_only (take 10 s) \<and> take 1 (drop 10 s) = [84]
      \<and> list_all is_digit (take 2 (drop 11 s)) \<and> take 1 (drop 13 s) = [58]
      \<and> list_all is_digit (take 2 (drop 14 s)) \<and> take 1 (drop 16 s) = [58]
      \<and> list_all is_digit (take 2 (drop 17 s)) \<and> take 1 (drop 19 s) = [46]
      \<and> list_all is_digit (take 3 (drop 20 s)) \<and> drop 23 s = [90])"

definition zod0 :: Zod where
  "zod0 = \<lparr>zod_uuid = uuid_format, zod_datetime = datetime_format\<rparr>"

text \<open>A stored expense that passes the schema, and the same with an amount of zero.\<close>

definition lunch :: Expense where
  "lunch =
     \<lparr>eid = str ''9b2c1d3e-4f50-4a61-8b72-93a4b5c6d7e8'',
      amountCents = 1599,
      currency = str ''EUR'',
      category = Some (str ''Food''),
      enote = Some (str ''lunch''),
      paidAt = str ''2024-03-15'',
      paymentMethod = Some (str ''Card''),
      createdAt = str ''2024-03-15T10:00:00.000Z'',
      updatedAt = str ''2024-03-15T10:00:00.000Z''\<rparr>"

definition free_lunch :: Expense where
  "free_lunch = lunch\<lparr>amountCents := 0\<rparr>"

text \<open>
  A store holding \<open>lunch\<close> in which every counter of the rate limiter stands at a
  thousand calls in a window that ends after the call of \<open>env0\<close>.
\<close>

definition busy_counters :: counters where
  "busy_counters =
     [(str ''saveExpenses'', 1000, 1710504030000), (str ''addExpense'', 1000, 1710504030000),
      (str ''updateExpense'', 1000, 1710504030000), (str ''deleteExpense'', 1000, 1710504030000),
      (str ''setBudget'', 1000, 1710504030000), (str ''saveBudgets'', 1000, 1710504030000)]"

definition busy_store :: Store where
  "busy_store =
     \<lparr>ls_expenses = Some [lunch], ls_budgets = None, ls_settings = None,
      operationCounts = busy_counters\<rparr>"

definition lunch_store :: Store where
  "lunch_store =
     \<lparr>ls_expenses = Some [lunch], ls_budgets = None, ls_settings = None,
      operationCounts = []\<rparr>"

text \<open>An overall budget for March 2024 and a store that holds it.\<close>

definition march_budget :: Budget where
  "march_budget =
     \<lparr>bid = str ''0a1b2c3d-4e5f-4a6b-8c7d-9e0f1a2b3c4d'',
      yearMonth = str ''2024-03'', bcategory = None, limitCents = 50000\<rparr>"

definition budget_store :: Store where
  "budget_store =
     \<lparr>ls_expenses = None, ls_budgets = Some [march_budget], ls_settings = None,
      operationCounts = []\<rparr>"

text \<open>Updates that supply one property only.\<close>

definition no_updates :: ExpenseUpdates where
  "no_updates =
     \<lparr>u_id = None, u_amountCents = None, u_currency = None, u_category = None,
      u_note = None, u_paidAt = None, u_paymentMethod = None, u_createdAt = None,
      u_updatedAt = None\<rparr>"

definition only_amount :: ExpenseUpdates where
  "only_amount = no_updates\<lparr>u_amountCents := Some 2000\<rparr>"

definition only_category :: ExpenseUpdates where
  "only_category = no_updates\<lparr>u_category := Some (str ''Dining'')\<rparr>"

text \<open>Expenses dated on the leap day and on the last day of March 2024.\<close>

definition leap_day_expense :: Expense where
  "leap_day_expense = lunch\<lparr>paidAt := str ''2024-02-29''\<rparr>"

definition month_end_expense :: Expense where
  "month_end_expense = lunch\<lparr>paidAt := str ''2024-03-31''\<rparr>"

text \<open>An entry dated more than twenty-four years before the call of \<open>env0\<close>.\<close>

definition old_entry :: ExpenseUpdates where
  "old_entry =
     no_updates\<lparr>u_amountCents := Some 1599, u_category := Some (str ''Food''),
                u_paidAt := Some (str ''2000-01-01'')\<rparr>"

text \<open>
  The row of a file with the header \<open>date,amount,category\<close> and the line
  \<open>2024-01-05,12.50,Travel\<close>, and the expense the import builds from it at \<open>env0\<close>.
\<close>

definition travel_row :: csv_row where
  "travel_row =
     [(str ''date'', str ''2024-01-05''), (str ''amount'', str ''12.50''),
      (str ''category'', str ''Travel'')]"

definition travel_expense :: Expense where
  "travel_expense =
     \<lparr>eid = str ''123e4567-e89b-42d3-a456-426614174000'',
      amountCents = 1250,
      currency = str ''EUR'',
      category = Some (str ''Travel''),
      enote = None,
      paidAt = str ''2024-01-05T00:00:00.000Z'',
      paymentMethod = None,
      createdAt = str ''2024-03-15T12:00:00.000Z'',
      updatedAt = str ''2024-03-15T12:00:00.000Z''\<rparr>"

text \<open>
  A stored expense without a note, the text \<open>exportToCSV\<close> gives for it, and the
  expense the import builds from that text.
\<close>

definition quiet_lunch :: Expense where
  "quiet_lunch = lunch\<lparr>enote := None\<rparr>"

definition quiet_lunch_csv :: jsstring where
  "quiet_lunch_csv =
     65279 # str ''date,amount,currency,category,note,payment_method'' @ [10]
       @ str ''2024-03-15,15.99,EUR,Food,,Card''"

definition reimported_lunch :: Expense where
  "reimported_lunch =
     \<lparr>eid = str ''123e4567-e89b-42d3-a456-426614174000'',
      amountCents = 1599,
      currency = str ''EUR'',
      category = Some (str ''Food''),
      enote = None,
      paidAt = str ''2024-03-15T00:00:00.000Z'',
      paymentMethod = Some (str ''Card''),
      createdAt = str ''2024-03-15T12:00:00.000Z'',
      updatedAt = str ''2024-03-15T12:00:00.000Z''\<rparr>"

text \<open>
  Twenty-one category names of one to fifty characters, the last of which has no
  character that \<open>sanitizeCategory\<close> keeps, and the update that supplies them.
\<close>

definition twenty_names :: "jsstring list" where
  "twenty_names = take 20 twenty_one_names"

definition names_with_marks :: "jsstring list" where
  "names_with_marks = twenty_names @ [str ''!!!'']"

definition only_categories :: Settings where
  "only_categories =
     \<lparr>scurrency = None, categories = Some names_with_marks, monthlyBudget = None,
      theme = None\<rparr>"

section \<open>Evaluation of the string and date functions\<close>

lemmas char_defs =
  str_def trim_def is_ws_def is_category_char_def is_xss_def is_lower_def is_upper_def
  is_digit_def

lemma to_dec_numeral [simp]:
  "to_dec (numeral k) =
     (if (numeral k :: nat) < 10 then [48 + numeral k]
      else to_dec (numeral k div 10) @ [48 + numeral k mod 10])"
  by (rule to_dec.simps)

lemma to_dec_small [simp]: "to_dec 0 = [48]" "to_dec 1 = [49]" "to_dec (Suc 0) = [49]"
  by (simp_all add: to_dec.simps)

lemma replicate_numeral_eval [simp]:
  "replicate (numeral k) x = x # replicate (numeral k - 1) x"
  by (simp add: numeral_eq_Suc)

text \<open>
  Dates are evaluated on closed terms: the definitions and their \<open>let\<close>s are unfolded
  first, the arithmetic is done afterwards.
\<close>

lemmas date_defs =
  toISOString_def civil_from_days_def days_from_civil_def MakeDay_def Date_local_def
  TimeClip_def msPerDay_def before_T_def Let_def

lemma civil_eval:
  "civil_from_days 19727 = (2024, 1, 5)"
  "civil_from_days 19782 = (2024, 2, 29)"
  "civil_from_days 19783 = (2024, 3, 1)"
  "civil_from_days 19797 = (2024, 3, 15)"
  "civil_from_days 19812 = (2024, 3, 30)"
  "civil_from_days 19813 = (2024, 3, 31)"
  unfolding civil_from_days_def Let_def by simp_all

lemma toISOString_civil:
  assumes "civil_from_days (t div 86400000) = (y, m, d)"
  shows "toISOString t =
           iso_year y @ [45] @ pad 2 (nat m) @ [45] @ pad 2 (nat d) @ [84]
           @ pad 2 (nat (t mod 86400000) div 3600000) @ [58]
           @ pad 2 (nat (t mod 86400000) div 60000 mod 60) @ [58]
           @ pad 2 (nat (t mod 86400000) div 1000 mod 60) @ [46]
           @ pad 3 (nat (t mod 86400000) mod 1000) @ [90]"
  using assms by (simp add: toISOString_def msPerDay_def Let_def)

lemma now_iso: "toISOString 1710504000000 = str ''2024-03-15T12:00:00.000Z''"
  by (subst toISOString_civil [of _ 2024 3 15])
     (simp_all add: civil_eval iso_year_def pad_def str_def)

section \<open>Properties of the per-category totals\<close>

lemma map_set_total:
  "entries_total (map_set k (a, n) kvs) =
     entries_total kvs + a - (case map_of kvs k of None \<Rightarrow> 0 | Some d \<Rightarrow> fst d)"
  by (induction kvs) (auto simp: entries_total_def)

lemma map_set_count:
  "int (entries_count (map_set k (a, n) kvs)) =
     int (entries_count kvs) + int n - (case map_of kvs k of None \<Rightarrow> 0 | Some d \<Rightarrow> int (snd d))"
  by (induction kvs) (auto simp: entries_count_def)

lemma add_to_totals_total:
  "entries_total (add_to_totals totals e) = entries_total totals + amountCents e"
  by (simp add: add_to_totals_def Let_def map_get_def map_set_total split: option.splits)

lemma add_to_totals_count:
  "entries_count (add_to_totals totals e) = entries_count totals + 1"
proof -
  have "int (entries_count (add_to_totals totals e)) = int (entries_count totals) + 1"
    by (simp add: add_to_totals_def Let_def map_get_def map_set_count split: option.splits)
  then show ?thesis by linarith
qed

lemma foldl_totals_total:
  "entries_total (foldl add_to_totals acc es) =
     entries_total acc + sum_list (map amountCents es)"
  by (induction es arbitrary: acc) (simp_all add: add_to_totals_total)

lemma foldl_totals_count:
  "entries_count (foldl add_to_totals acc es) = entries_count acc + length es"
  by (induction es arbitrary: acc) (simp_all add: add_to_totals_count)

lemma sum_list_sort_key_int:
  "sum_list (map (h :: 'a \<Rightarrow> int) (sort_key f xs)) = sum_list (map h xs)"
proof -
  have "mset (map h (sort_key f xs)) = mset (map h xs)" by simp
  then show ?thesis by (metis sum_mset_sum_list)
qed

lemma sum_list_sort_key_nat:
  "sum_list (map (h :: 'a \<Rightarrow> nat) (sort_key f xs)) = sum_list (map h xs)"
proof -
  have "mset (map h (sort_key f xs)) = mset (map h xs)" by simp
  then show ?thesis by (metis sum_mset_sum_list)
qed

text \<open>
  C7. For every expense collection, the totals of the groups returned by
  \<open>calculateCategoryTotals\<close> add up to the sum of the amounts of all expenses, and the
  expense counts of the groups add up to the number of expenses.
\<close>

theorem calculateCategoryTotals_conservation:
  "sum_list (map totalCents (calculateCategoryTotals expenses)) =
     sum_list (map amountCents expenses)
   \<and> sum_list (map expenseCount (calculateCategoryTotals expenses)) = length expenses"
proof
  have "sum_list (map totalCents (calculateCategoryTotals expenses)) =
        entries_total (foldl add_to_totals [] expenses)"
    by (simp add: calculateCategoryTotals_def sum_list_sort_key_int entries_total_def
        comp_def case_prod_unfold)
  then show "sum_list (map totalCents (calculateCategoryTotals expenses)) =
             sum_list (map amountCents expenses)"
    using foldl_totals_total [of "[]" expenses] by (simp add: entries_total_def)
next
  have "sum_list (map expenseCount (calculateCategoryTotals expenses)) =
        entries_count (foldl add_to_totals [] expenses)"
    by (simp add: calculateCategoryTotals_def sum_list_sort_key_nat entries_count_def
        comp_def case_prod_unfold)
  then show "sum_list (map expenseCount (calculateCategoryTotals expenses)) = length expenses"
    using foldl_totals_count [of "[]" expenses] by (simp add: entries_count_def)
qed

section \<open>Properties of the settings store\<close>


lemma filter_nonempty_map:
  "list_all (\<lambda>c. f c \<noteq> []) cs \<Longrightarrow> filter (\<lambda>c. c \<noteq> []) (map f cs) = map f cs"
  by (induction cs) simp_all

text \<open>
  C10, as amended. The settings schema caps the number of categories at 20.
  \<open>validateSettingsData\<close> is false for every settings object with more than 20
  categories, and \<open>saveSettings\<close> called with more than 20 categories, each of which is
  still a non-empty name after \<open>sanitizeCategory\<close>, throws the validation error and
  leaves the store as it was. A name that \<open>sanitizeCategory\<close> empties is dropped before
  the count and does not take one of the 20 places.
\<close>

theorem settings_category_cap:
  assumes "categories s = Some cs" and "20 < length cs"
  shows "\<not> validateSettingsData s
         \<and> (list_all (\<lambda>c. sanitizeCategory c \<noteq> []) cs \<longrightarrow>
              saveSettings env s st = (Inl InvalidSettingsData, st))"
proof
  show "\<not> validateSettingsData s"
    using assms by (simp add: validateSettingsData_def SettingsSchema_def)
next
  show "list_all (\<lambda>c. sanitizeCategory c \<noteq> []) cs \<longrightarrow>
          saveSettings env s st = (Inl InvalidSettingsData, st)"
  proof
    assume ok: "list_all (\<lambda>c. sanitizeCategory c \<noteq> []) cs"
    have "filter (\<lambda>c. c \<noteq> []) (map sanitizeCategory cs) = map sanitizeCategory cs"
      using ok by (rule filter_nonempty_map)
    then show "saveSettings env s st = (Inl InvalidSettingsData, st)"
      using assms
      by (simp add: saveSettings_def Let_def validateSettingsData_def SettingsSchema_def)
  qed
qed

lemma twenty_one_names_survive:
  "list_all (\<lambda>c. sanitizeCategory c \<noteq> []) twenty_one_names"
  by (simp add: twenty_one_names_def sanitizeCategory_def char_defs)

theorem settings_category_cap_witness:
  "categories (defaultSettings\<lparr>categories := Some twenty_one_names\<rparr>) = Some twenty_one_names
   \<and> 20 < length twenty_one_names
   \<and> list_all (\<lambda>c. sanitizeCategory c \<noteq> []) twenty_one_names
   \<and> \<not> validateSettingsData (defaultSettings\<lparr>categories := Some twenty_one_names\<rparr>)
   \<and> saveSettings env0 (defaultSettings\<lparr>categories := Some twenty_one_names\<rparr>) empty_store
       = (Inl InvalidSettingsData, empty_store)"
proof -
  have c: "categories (defaultSettings\<lparr>categories := Some twenty_one_names\<rparr>)
           = Some twenty_one_names"
    by simp
  have l: "20 < length twenty_one_names"
    by (simp add: twenty_one_names_def)
  show ?thesis
    using settings_category_cap [OF c l, of env0 empty_store] twenty_one_names_survive c l
    by blast
qed

lemma names_with_marks_sanitized:
  "filter (\<lambda>c. c \<noteq> []) (map sanitizeCategory names_with_marks) = twenty_names"
  by (simp add: names_with_marks_def twenty_names_def twenty_one_names_def
      sanitizeCategory_def char_defs)

text \<open>
  C10 as stated fails where a name passes the length bounds of the schema but is emptied
  by \<open>sanitizeCategory\<close>: of twenty-one names of one to fifty characters, the last being
  \<open>!!!\<close>, \<open>saveSettings\<close> keeps twenty, the collection passes the schema, and the call
  stores it instead of throwing.
\<close>

theorem saveSettings_drops_unsanitary_name:
  "length names_with_marks = 21
   \<and> list_all (\<lambda>c. 1 \<le> length c \<and> length c \<le> 50) names_with_marks
   \<and> \<not> validateSettingsData only_categories
   \<and> saveSettings env0 only_categories empty_store
       = (Inr (), empty_store\<lparr>ls_settings :=
                    Some (defaultSettings\<lparr>categories := Some twenty_names\<rparr>)\<rparr>)"
proof -
  have n: "length names_with_marks = 21"
    "list_all (\<lambda>c. 1 \<le> length c \<and> length c \<le> 50) names_with_marks"
    by (simp_all add: names_with_marks_def twenty_names_def twenty_one_names_def str_def)
  have v: "\<not> validateSettingsData only_categories"
    using n(1) by (simp add: validateSettingsData_def SettingsSchema_def only_categories_def)
  have t: "list_all (\<lambda>c. 1 \<le> length c \<and> length c \<le> 50) twenty_names"
    "length twenty_names = 20"
    by (simp_all add: twenty_names_def twenty_one_names_def str_def)
  have g: "getSettings empty_store = defaultSettings"
    by (simp add: getSettings_def empty_store_def)
  have c: "is_currency_code (str ''EUR'')"
    by (simp add: is_currency_code_def char_defs)
  have s: "saveSettings env0 only_categories empty_store
       = (Inr (), empty_store\<lparr>ls_settings :=
                    Some (defaultSettings\<lparr>categories := Some twenty_names\<rparr>)\<rparr>)"
    using t c
    by (simp add: saveSettings_def g only_categories_def names_with_marks_sanitized
        validateSettingsData_def SettingsSchema_def defaultSettings_def spread_opt_def
        env0_def Let_def)
  show ?thesis using n v s by simp
qed

section \<open>Properties of the expense store\<close>

lemma lunch_valid: "ExpenseSchema zod0 lunch"
  by (simp add: ExpenseSchema_def zod0_def lunch_def uuid_format_def datetime_format_def is_hex_def
      is_currency_code_def is_date_only_def max_len_def char_defs)

lemma free_lunch_invalid: "\<not> ExpenseSchema zod0 free_lunch"
  by (simp add: ExpenseSchema_def free_lunch_def lunch_def)

text \<open>
  C2, as amended. For every store and every candidate collection with at least one record
  that fails the expense schema, \<open>saveExpenses\<close> fails: with the rate-limit error when
  the rate limiter refuses the call, with the validation error otherwise. In both cases
  the three persisted blobs are exactly what they were before the call.
\<close>

theorem saveExpenses_invalid_atomic:
  assumes "e \<in> set candidate" and "\<not> ExpenseSchema z e"
  shows "fst (saveExpenses z env candidate st) =
           Inl (if fst (checkRateLimit (str ''saveExpenses'') 50 60000 (now env)
                          (operationCounts st))
                then InvalidExpenseData else TooManySaveOperations)
         \<and> ls_expenses (snd (saveExpenses z env candidate st)) = ls_expenses st
         \<and> ls_budgets (snd (saveExpenses z env candidate st)) = ls_budgets st
         \<and> ls_settings (snd (saveExpenses z env candidate st)) = ls_settings st"
proof -
  have bad: "\<not> validateExpenseData z candidate"
    using assms by (auto simp: validateExpenseData_def list_all_iff)
  obtain allowed counts where
    c: "checkRateLimit (str ''saveExpenses'') 50 60000 (now env) (operationCounts st)
        = (allowed, counts)"
    by (cases "checkRateLimit (str ''saveExpenses'') 50 60000 (now env) (operationCounts st)")
  show ?thesis
    using bad c by (simp add: saveExpenses_def Let_def)
qed

text \<open>
  C2 as stated fails where the limiter has already counted 50 saves in the current
  window: the call with an invalid record then fails with the rate-limit error, which is
  not a validation error.
\<close>

theorem saveExpenses_rate_limit_first:
  "\<not> validateExpenseData zod0 [free_lunch]
   \<and> saveExpenses zod0 env0 [free_lunch] busy_store = (Inl TooManySaveOperations, busy_store)
   \<and> \<not> is_validation_error TooManySaveOperations"
  by (simp add: validateExpenseData_def free_lunch_invalid saveExpenses_def checkRateLimit_def
      map_get_def busy_store_def busy_counters_def env0_def str_def is_validation_error_def)

theorem saveExpenses_invalid_atomic_witness:
  "free_lunch \<in> set [lunch, free_lunch] \<and> \<not> ExpenseSchema zod0 free_lunch
   \<and> fst (saveExpenses zod0 env0 [lunch, free_lunch] lunch_store) = Inl InvalidExpenseData
   \<and> ls_expenses (snd (saveExpenses zod0 env0 [lunch, free_lunch] lunch_store)) = Some [lunch]"
proof -
  have m: "free_lunch \<in> set [lunch, free_lunch]" by simp
  have r: "fst (checkRateLimit (str ''saveExpenses'') 50 60000 (now env0)
                 (operationCounts lunch_store))"
    by (simp add: checkRateLimit_def map_get_def lunch_store_def)
  have s: "ls_expenses lunch_store = Some [lunch]" by (simp add: lunch_store_def)
  show ?thesis
    using saveExpenses_invalid_atomic [OF m free_lunch_invalid, of env0 lunch_store] r s m
      free_lunch_invalid
    by simp
qed

lemma lunch_store_read: "getExpenses zod0 lunch_store = [lunch]"
  by (simp add: getExpenses_def lunch_store_def validateExpenseData_def lunch_valid)

text \<open>
  C1 fails on the code. The stored collection holds \<open>lunch\<close>, which has a category, a
  note and a payment method. An update that supplies only \<open>amountCents\<close> builds a record
  without category, note and payment method, which \<open>saveExpenses\<close> rejects: the call
  throws the validation error and nothing is persisted. An update that supplies only
  \<open>category\<close> is persisted, with the note and the payment method erased.
\<close>

theorem updateExpense_drops_omitted_fields:
  "getExpenses zod0 lunch_store = [lunch]
   \<and> updateExpense zod0 env0 (eid lunch) only_amount lunch_store
       = (Inl InvalidExpenseData,
          lunch_store\<lparr>operationCounts :=
            [(str ''updateExpense'', 1, 1710504060000), (str ''saveExpenses'', 1, 1710504060000)]\<rparr>)
   \<and> fst (updateExpense zod0 env0 (eid lunch) only_category lunch_store)
       = Inr (Some (lunch\<lparr>category := Some (str ''Dining''), enote := None,
                          paymentMethod := None,
                          updatedAt := str ''2024-03-15T12:00:00.000Z''\<rparr>))
   \<and> ls_expenses (snd (updateExpense zod0 env0 (eid lunch) only_category lunch_store))
       = Some [lunch\<lparr>category := Some (str ''Dining''), enote := None,
                      paymentMethod := None,
                      updatedAt := str ''2024-03-15T12:00:00.000Z''\<rparr>]"
proof -
  have r: "getExpenses zod0 (lunch_store\<lparr>operationCounts := cs\<rparr>) = [lunch]" for cs
    by (simp add: getExpenses_def lunch_store_def validateExpenseData_def lunch_valid)
  have a: "\<not> ExpenseSchema zod0 \<lparr>eid = eid lunch, amountCents = 2000, currency = currency lunch,
        category = None, enote = None, paidAt = paidAt lunch, paymentMethod = None,
        createdAt = createdAt lunch, updatedAt = str ''2024-03-15T12:00:00.000Z''\<rparr>"
    by (simp add: ExpenseSchema_def)
  have b: "ExpenseSchema zod0 \<lparr>eid = eid lunch, amountCents = amountCents lunch,
        currency = currency lunch,
        category = Some (str ''Dining''), enote = None, paidAt = paidAt lunch,
        paymentMethod = None,
        createdAt = createdAt lunch, updatedAt = str ''2024-03-15T12:00:00.000Z''\<rparr>"
    by (simp add: ExpenseSchema_def zod0_def lunch_def uuid_format_def datetime_format_def
        is_hex_def is_currency_code_def is_date_only_def max_len_def char_defs)
  have c: "sanitizeCategory (str ''Dining'') = str ''Dining''"
    by (simp add: sanitizeCategory_def char_defs)
  have l: "lunch\<lparr>category := Some (str ''Dining''), enote := None, paymentMethod := None,
                 updatedAt := str ''2024-03-15T12:00:00.000Z''\<rparr>
           = \<lparr>eid = eid lunch, amountCents = amountCents lunch,
        currency = currency lunch,
        category = Some (str ''Dining''), enote = None, paidAt = paidAt lunch,
        paymentMethod = None,
        createdAt = createdAt lunch, updatedAt = str ''2024-03-15T12:00:00.000Z''\<rparr>"
    by (simp add: lunch_def)
  have k: "str ''saveExpenses'' \<noteq> str ''updateExpense''" "str ''Dining'' \<noteq> []"
    by (simp_all add: str_def)
  have e0: "now env0 = 1710504000000" "setItem_ok env0" by (simp_all add: env0_def)
  have o: "operationCounts lunch_store = []" by (simp add: lunch_store_def)
  have u1: "updateExpense zod0 env0 (eid lunch) only_amount lunch_store
       = (Inl InvalidExpenseData,
          lunch_store\<lparr>operationCounts :=
            [(str ''updateExpense'', 1, 1710504060000), (str ''saveExpenses'', 1, 1710504060000)]\<rparr>)"
    using a k
    by (simp add: updateExpense_def saveExpenses_def checkRateLimit_def map_get_def r o e0 now_iso
        only_amount_def no_updates_def truthy_def spread_def validateExpenseData_def Let_def)
  have u2: "updateExpense zod0 env0 (eid lunch) only_category lunch_store
       = (Inr (Some (lunch\<lparr>category := Some (str ''Dining''), enote := None,
                          paymentMethod := None,
                          updatedAt := str ''2024-03-15T12:00:00.000Z''\<rparr>)),
          lunch_store\<lparr>operationCounts :=
            [(str ''updateExpense'', 1, 1710504060000), (str ''saveExpenses'', 1, 1710504060000)],
            ls_expenses := Some [lunch\<lparr>category := Some (str ''Dining''), enote := None,
                          paymentMethod := None,
                          updatedAt := str ''2024-03-15T12:00:00.000Z''\<rparr>]\<rparr>)"
    using b k unfolding l
    by (simp add: updateExpense_def saveExpenses_def checkRateLimit_def map_get_def r o e0 now_iso
        only_category_def no_updates_def truthy_def spread_def validateExpenseData_def Let_def c)
  show ?thesis
    unfolding u1 u2 by (simp add: lunch_store_read)
qed
section \<open>Properties of the rate limiter in the store\<close>


text \<open>
  The limiter refuses a call exactly when the operation has an open window (the clock
  has not passed its end) in which \<open>maxOps\<close> calls or more are already counted.
\<close>

lemma checkRateLimit_refuses_iff:
  "\<not> fst (checkRateLimit op m w t cs) \<longleftrightarrow>
     (\<exists>cnt resetTime. map_get cs op = Some (cnt, resetTime) \<and> t \<le> resetTime \<and> m \<le> cnt)"
  by (auto simp: checkRateLimit_def split: option.splits prod.splits if_splits)








section \<open>Properties of the budget store\<close>

lemma findIndex_None_iff: "findIndex P xs = None \<longleftrightarrow> (\<forall>x\<in>set xs. \<not> P x)"
  by (induction xs) auto

lemma findIndex_Some: "findIndex P xs = Some i \<Longrightarrow> i < length xs \<and> P (xs ! i)"
  by (induction xs arbitrary: i) (auto split: if_splits)

lemma distinct_map_update:
  assumes "distinct (map f xs)" and "i < length xs" and "f y = f (xs ! i)"
  shows "distinct (map f (xs[i := y]))"
proof -
  have "map f (xs[i := y]) = map f xs"
    using assms by (simp add: list_eq_iff_nth_eq nth_list_update)
  then show ?thesis using assms by simp
qed

lemma filter_key_singleton:
  "distinct (map f xs) \<Longrightarrow> x \<in> set xs \<Longrightarrow> filter (\<lambda>y. f y = f x) xs = [x]"
proof (induction xs)
  case Nil
  then show ?case by simp
next
  case (Cons a xs)
  show ?case
  proof (cases "a = x")
    case True
    have "f x \<notin> f ` set xs"
      using Cons.prems True by simp
    then have "\<forall>y\<in>set xs. f y \<noteq> f x"
      by (metis imageI)
    then have "filter (\<lambda>y. f y = f x) xs = []"
      by (simp add: filter_empty_conv)
    then show ?thesis using True by simp
  next
    case False
    then have "x \<in> set xs" using Cons.prems by simp
    moreover have "f a \<noteq> f x" using Cons.prems \<open>x \<in> set xs\<close> by auto
    ultimately show ?thesis using Cons by simp
  qed
qed

lemma setBudget_unfold:
  "setBudget z env ym limit cat st =
     (let budgets = getBudgets z st;
          existingIndex = findIndex (\<lambda>b. budget_key b = (ym, cat)) budgets;
          budget = \<lparr>bid = (case existingIndex of
                             Some i \<Rightarrow> bid (budgets ! i) | None \<Rightarrow> randomUUID env),
                    yearMonth = ym, bcategory = cat, limitCents = limit\<rparr>;
          budgets' = (case existingIndex of
                        Some i \<Rightarrow> list_update budgets i budget | None \<Rightarrow> budgets @ [budget])
      in if \<not> validateBudgetData z budgets' then (Inl InvalidBudgetData, st)
         else if \<not> setItem_ok env then (Inl FailedToSaveBudgets, st)
         else (Inr budget, st\<lparr>ls_budgets := Some budgets'\<rparr>))"
  by (simp add: setBudget_def saveBudgets_def Let_def budget_key_def)

lemma getBudgets_saved:
  "validateBudgetData z bs \<Longrightarrow> getBudgets z (st\<lparr>ls_budgets := Some bs\<rparr>) = bs"
  by (simp add: getBudgets_def)

lemma setBudget_failure:
  "setBudget z env ym limit cat st = (Inl err, st') \<Longrightarrow> st' = st"
  by (auto simp: setBudget_unfold Let_def split: if_splits)

lemma setBudget_replace:
  assumes d: "distinct (map budget_key (getBudgets z st))"
    and ok: "setBudget z env ym limit cat st = (Inr b, st')"
    and ex: "x \<in> set (getBudgets z st)" "budget_key x = (ym, cat)"
  shows "\<exists>i < length (getBudgets z st).
           budget_key (getBudgets z st ! i) = (ym, cat)
           \<and> b = \<lparr>bid = bid (getBudgets z st ! i), yearMonth = ym, bcategory = cat,
                   limitCents = limit\<rparr>
           \<and> getBudgets z st' = (getBudgets z st)[i := b]
           \<and> distinct (map budget_key (getBudgets z st'))"
proof -
  let ?bs = "getBudgets z st"
  obtain i where i: "findIndex (\<lambda>b. budget_key b = (ym, cat)) ?bs = Some i"
    using ex findIndex_None_iff [of "\<lambda>b. budget_key b = (ym, cat)" ?bs] by fastforce
  then have il: "i < length ?bs" and ik: "budget_key (?bs ! i) = (ym, cat)"
    using findIndex_Some by fastforce+
  let ?b = "\<lparr>bid = bid (?bs ! i), yearMonth = ym, bcategory = cat, limitCents = limit\<rparr>"
  have res: "b = ?b" and v: "validateBudgetData z (?bs[i := ?b])"
    and st': "st' = st\<lparr>ls_budgets := Some (?bs[i := ?b])\<rparr>"
    using ok i by (auto simp: setBudget_unfold Let_def split: if_splits)
  have g: "getBudgets z st' = ?bs[i := b]"
    using v st' res by (simp add: getBudgets_saved)
  have "budget_key ?b = budget_key (?bs ! i)"
    using ik by (simp add: budget_key_def)
  then have "distinct (map budget_key (?bs[i := ?b]))"
    using d il by (intro distinct_map_update) auto
  then show ?thesis using il ik res g by auto
qed

lemma setBudget_append:
  assumes d: "distinct (map budget_key (getBudgets z st))"
    and ok: "setBudget z env ym limit cat st = (Inr b, st')"
    and nex: "\<forall>x \<in> set (getBudgets z st). budget_key x \<noteq> (ym, cat)"
  shows "b = \<lparr>bid = randomUUID env, yearMonth = ym, bcategory = cat, limitCents = limit\<rparr>
         \<and> getBudgets z st' = getBudgets z st @ [b]
         \<and> distinct (map budget_key (getBudgets z st'))"
proof -
  let ?bs = "getBudgets z st"
  have i: "findIndex (\<lambda>b. budget_key b = (ym, cat)) ?bs = None"
    using nex by (simp add: findIndex_None_iff)
  let ?b = "\<lparr>bid = randomUUID env, yearMonth = ym, bcategory = cat, limitCents = limit\<rparr>"
  have res: "b = ?b" and v: "validateBudgetData z (?bs @ [?b])"
    and st': "st' = st\<lparr>ls_budgets := Some (?bs @ [?b])\<rparr>"
    using ok i by (auto simp: setBudget_unfold Let_def split: if_splits)
  have g: "getBudgets z st' = ?bs @ [b]"
    using v st' res by (simp add: getBudgets_saved)
  have "budget_key ?b = (ym, cat)" by (simp add: budget_key_def)
  then have "distinct (map budget_key (?bs @ [?b]))"
    using d nex by auto
  then show ?thesis using res g by simp
qed


lemma setBudget_member:
  assumes d: "distinct (map budget_key (getBudgets z st))"
    and ok: "setBudget z env ym limit cat st = (Inr b, st')"
  shows "b \<in> set (getBudgets z st') \<and> budget_key b = (ym, cat) \<and> limitCents b = limit
         \<and> distinct (map budget_key (getBudgets z st'))"
proof (cases "\<exists>x \<in> set (getBudgets z st). budget_key x = (ym, cat)")
  case True
  then obtain x where "x \<in> set (getBudgets z st)" "budget_key x = (ym, cat)" by blast
  from setBudget_replace [OF d ok this] show ?thesis
    by (auto simp: budget_key_def intro: set_update_memI)
next
  case False
  then have "\<forall>x \<in> set (getBudgets z st). budget_key x \<noteq> (ym, cat)" by blast
  from setBudget_append [OF d ok this] show ?thesis
    by (auto simp: budget_key_def)
qed

text \<open>
  C5, as amended. Let the budget collection read by \<open>getBudgets\<close> have at most one budget
  for each pair of month and category. A call of \<open>setBudget\<close> that throws (the new
  collection fails the budget schema, or the write fails) leaves the store as it was. A
  call that returns leaves a collection that still has at most one budget for each pair:
  when a budget for the pair existed it is replaced where it stands by one with the new
  limit and the same id, otherwise a budget with the id from \<open>crypto.randomUUID()\<close> is
  appended. Two returning calls for the same pair leave exactly one budget for that pair,
  with the limit of the second call and the id the first call returned.
\<close>

theorem setBudget_upsert:
  assumes d: "distinct (map budget_key (getBudgets z st))"
  shows "(case setBudget z env ym limit cat st of
            (Inl err, st') \<Rightarrow> st' = st
          | (Inr b, st') \<Rightarrow>
              distinct (map budget_key (getBudgets z st'))
              \<and> ((\<exists>x \<in> set (getBudgets z st). budget_key x = (ym, cat)) \<longrightarrow>
                   (\<exists>i < length (getBudgets z st).
                      budget_key (getBudgets z st ! i) = (ym, cat)
                      \<and> b = \<lparr>bid = bid (getBudgets z st ! i), yearMonth = ym,
                              bcategory = cat, limitCents = limit\<rparr>
                      \<and> getBudgets z st' = (getBudgets z st)[i := b]))
              \<and> ((\<forall>x \<in> set (getBudgets z st). budget_key x \<noteq> (ym, cat)) \<longrightarrow>
                   b = \<lparr>bid = randomUUID env, yearMonth = ym, bcategory = cat,
                         limitCents = limit\<rparr>
                   \<and> getBudgets z st' = getBudgets z st @ [b]))
         \<and> (setBudget z env ym limit cat st = (Inr b_first, st_first) \<longrightarrow>
              setBudget z env_second ym limit_second cat st_first = (Inr b_second, st_second) \<longrightarrow>
              filter (\<lambda>x. budget_key x = (ym, cat)) (getBudgets z st_second) = [b_second]
              \<and> limitCents b_second = limit_second \<and> bid b_second = bid b_first)"
proof
  show "case setBudget z env ym limit cat st of
            (Inl err, st') \<Rightarrow> st' = st
          | (Inr b, st') \<Rightarrow>
              distinct (map budget_key (getBudgets z st'))
              \<and> ((\<exists>x \<in> set (getBudgets z st). budget_key x = (ym, cat)) \<longrightarrow>
                   (\<exists>i < length (getBudgets z st).
                      budget_key (getBudgets z st ! i) = (ym, cat)
                      \<and> b = \<lparr>bid = bid (getBudgets z st ! i), yearMonth = ym,
                              bcategory = cat, limitCents = limit\<rparr>
                      \<and> getBudgets z st' = (getBudgets z st)[i := b]))
              \<and> ((\<forall>x \<in> set (getBudgets z st). budget_key x \<noteq> (ym, cat)) \<longrightarrow>
                   b = \<lparr>bid = randomUUID env, yearMonth = ym, bcategory = cat,
                         limitCents = limit\<rparr>
                   \<and> getBudgets z st' = getBudgets z st @ [b])"
  proof (cases "setBudget z env ym limit cat st")
    case (Pair r st')
    show ?thesis
    proof (cases r)
      case (Inl err)
      then show ?thesis using Pair setBudget_failure by fastforce
    next
      case (Inr b)
      then have ok: "setBudget z env ym limit cat st = (Inr b, st')" using Pair by simp
      have "distinct (map budget_key (getBudgets z st'))"
        using setBudget_member [OF d ok] by simp
      moreover have "(\<exists>x \<in> set (getBudgets z st). budget_key x = (ym, cat)) \<longrightarrow>
                   (\<exists>i < length (getBudgets z st).
                      budget_key (getBudgets z st ! i) = (ym, cat)
                      \<and> b = \<lparr>bid = bid (getBudgets z st ! i), yearMonth = ym,
                              bcategory = cat, limitCents = limit\<rparr>
                      \<and> getBudgets z st' = (getBudgets z st)[i := b])"
        using setBudget_replace [OF d ok] by blast
      moreover have "(\<forall>x \<in> set (getBudgets z st). budget_key x \<noteq> (ym, cat)) \<longrightarrow>
                   b = \<lparr>bid = randomUUID env, yearMonth = ym, bcategory = cat,
                         limitCents = limit\<rparr>
                   \<and> getBudgets z st' = getBudgets z st @ [b]"
        using setBudget_append [OF d ok] by blast
      ultimately show ?thesis using ok by simp
    qed
  qed
next
  show "setBudget z env ym limit cat st = (Inr b_first, st_first) \<longrightarrow>
          setBudget z env_second ym limit_second cat st_first = (Inr b_second, st_second) \<longrightarrow>
          filter (\<lambda>x. budget_key x = (ym, cat)) (getBudgets z st_second) = [b_second]
          \<and> limitCents b_second = limit_second \<and> bid b_second = bid b_first"
  proof (intro impI)
    assume ok1: "setBudget z env ym limit cat st = (Inr b_first, st_first)"
      and ok2: "setBudget z env_second ym limit_second cat st_first = (Inr b_second, st_second)"
    have m1: "b_first \<in> set (getBudgets z st_first)" "budget_key b_first = (ym, cat)"
      and d1: "distinct (map budget_key (getBudgets z st_first))"
      using setBudget_member [OF d ok1] by simp_all
    have m2: "b_second \<in> set (getBudgets z st_second)" "budget_key b_second = (ym, cat)" "limitCents b_second = limit_second"
      and d2: "distinct (map budget_key (getBudgets z st_second))"
      using setBudget_member [OF d1 ok2] by simp_all
    obtain i where i: "i < length (getBudgets z st_first)"
        "budget_key (getBudgets z st_first ! i) = (ym, cat)"
        "b_second = \<lparr>bid = bid (getBudgets z st_first ! i), yearMonth = ym, bcategory = cat,
               limitCents = limit_second\<rparr>"
      using setBudget_replace [OF d1 ok2 m1] by blast
    have "filter (\<lambda>y. budget_key y = budget_key b_first) (getBudgets z st_first) = [b_first]"
      using d1 m1(1) by (rule filter_key_singleton)
    moreover have "getBudgets z st_first ! i \<in> set (filter (\<lambda>y. budget_key y = budget_key b_first)
                      (getBudgets z st_first))"
      using i m1(2) by simp
    ultimately have "getBudgets z st_first ! i = b_first" by simp
    then have "bid b_second = bid b_first" using i(3) by simp
    moreover have "filter (\<lambda>x. budget_key x = (ym, cat)) (getBudgets z st_second) = [b_second]"
      using filter_key_singleton [OF d2 m2(1)] m2(2) by simp
    ultimately show "filter (\<lambda>x. budget_key x = (ym, cat)) (getBudgets z st_second) = [b_second]
          \<and> limitCents b_second = limit_second \<and> bid b_second = bid b_first"
      using m2(3) by simp
  qed
qed


lemma march_budget_valid: "BudgetSchema zod0 (march_budget\<lparr>limitCents := l\<rparr>) \<longleftrightarrow> 0 \<le> l \<and> l \<le> 100000000"
  by (simp add: BudgetSchema_def zod0_def march_budget_def uuid_format_def is_hex_def
      is_year_month_def max_len_def char_defs)

lemma march_store_read:
  "0 \<le> l \<Longrightarrow> l \<le> 100000000 \<Longrightarrow>
   getBudgets zod0 (budget_store\<lparr>ls_budgets := Some [march_budget\<lparr>limitCents := l\<rparr>]\<rparr>)
     = [march_budget\<lparr>limitCents := l\<rparr>]"
  by (simp add: getBudgets_def validateBudgetData_def march_budget_valid)

lemma budget_store_read: "getBudgets zod0 budget_store = [march_budget]"
  using march_budget_valid [of 50000]
  by (simp add: getBudgets_def validateBudgetData_def budget_store_def march_budget_def)

lemma march_update:
  "\<lparr>bid = bid march_budget, yearMonth = str ''2024-03'', bcategory = None, limitCents = l\<rparr>
     = march_budget\<lparr>limitCents := l\<rparr>"
  by (simp add: march_budget_def)

lemma setBudget_march:
  assumes "0 \<le> l" "l \<le> 100000000" "0 \<le> l'" "l' \<le> 100000000"
  shows "setBudget zod0 env0 (str ''2024-03'') l' None
           (budget_store\<lparr>ls_budgets := Some [march_budget\<lparr>limitCents := l\<rparr>]\<rparr>)
         = (Inr (march_budget\<lparr>limitCents := l'\<rparr>),
            budget_store\<lparr>ls_budgets := Some [march_budget\<lparr>limitCents := l'\<rparr>]\<rparr>)"
proof -
  have k: "budget_key (march_budget\<lparr>limitCents := l\<rparr>) = (str ''2024-03'', None)"
    by (simp add: budget_key_def march_budget_def)
  have e: "setItem_ok env0" by (simp add: env0_def)
  show ?thesis
    using assms
    by (simp add: setBudget_unfold march_store_read k e validateBudgetData_def
        march_update march_budget_valid Let_def)
qed

text \<open>
  C5 as stated fails on a call the schema rejects: the store holds a budget for March
  2024, and \<open>setBudget("2024-03", -1)\<close> throws the validation error and leaves that
  budget with its old limit instead of replacing it.
\<close>

theorem setBudget_rejects_limit:
  "getBudgets zod0 budget_store = [march_budget]
   \<and> budget_key march_budget = (str ''2024-03'', None)
   \<and> setBudget zod0 env0 (str ''2024-03'') (- 1) None budget_store
       = (Inl InvalidBudgetData, budget_store)"
proof -
  have k: "budget_key march_budget = (str ''2024-03'', None)"
    by (simp add: budget_key_def march_budget_def)
  have "\<not> BudgetSchema zod0 \<lparr>bid = bid march_budget, yearMonth = str ''2024-03'',
            bcategory = None, limitCents = - 1\<rparr>"
    by (simp add: BudgetSchema_def)
  then show ?thesis
    using k by (simp add: setBudget_unfold budget_store_read validateBudgetData_def Let_def)
qed


lemma setBudget_fresh:
  "setBudget zod0 env0 (str ''2024-03'') 50000 None empty_store
   = (Inr \<lparr>bid = randomUUID env0, yearMonth = str ''2024-03'', bcategory = None,
           limitCents = 50000\<rparr>,
      empty_store\<lparr>ls_budgets :=
        Some [\<lparr>bid = randomUUID env0, yearMonth = str ''2024-03'', bcategory = None,
               limitCents = 50000\<rparr>]\<rparr>)"
proof -
  have v: "BudgetSchema zod0 \<lparr>bid = randomUUID env0, yearMonth = str ''2024-03'',
             bcategory = None, limitCents = 50000\<rparr>"
    by (simp add: BudgetSchema_def zod0_def env0_def uuid_format_def is_hex_def
        is_year_month_def max_len_def char_defs)
  have g: "getBudgets zod0 empty_store = []"
    by (simp add: getBudgets_def empty_store_def)
  show ?thesis
    using v by (simp add: setBudget_unfold g validateBudgetData_def Let_def env0_def)
qed

theorem setBudget_upsert_witness:
  "distinct (map budget_key (getBudgets zod0 budget_store))
   \<and> setBudget zod0 env0 (str ''2024-03'') 60000 None budget_store
       = (Inr (march_budget\<lparr>limitCents := 60000\<rparr>),
          budget_store\<lparr>ls_budgets := Some [march_budget\<lparr>limitCents := 60000\<rparr>]\<rparr>)
   \<and> setBudget zod0 env0 (str ''2024-03'') 70000 None
         (budget_store\<lparr>ls_budgets := Some [march_budget\<lparr>limitCents := 60000\<rparr>]\<rparr>)
       = (Inr (march_budget\<lparr>limitCents := 70000\<rparr>),
          budget_store\<lparr>ls_budgets := Some [march_budget\<lparr>limitCents := 70000\<rparr>]\<rparr>)
   \<and> filter (\<lambda>x. budget_key x = (str ''2024-03'', None))
         (getBudgets zod0
            (budget_store\<lparr>ls_budgets := Some [march_budget\<lparr>limitCents := 70000\<rparr>]\<rparr>))
       = [march_budget\<lparr>limitCents := 70000\<rparr>]
   \<and> bid (march_budget\<lparr>limitCents := 70000\<rparr>) = bid (march_budget\<lparr>limitCents := 60000\<rparr>)
   \<and> march_budget \<in> set (getBudgets zod0 budget_store)
   \<and> budget_key march_budget = (str ''2024-03'', None)
   \<and> (\<exists>i < length (getBudgets zod0 budget_store).
         getBudgets zod0
           (budget_store\<lparr>ls_budgets := Some [march_budget\<lparr>limitCents := 60000\<rparr>]\<rparr>)
         = (getBudgets zod0 budget_store)[i := march_budget\<lparr>limitCents := 60000\<rparr>])
   \<and> distinct (map budget_key (getBudgets zod0 empty_store))
   \<and> getBudgets zod0 empty_store = []
   \<and> getBudgets zod0 (snd (setBudget zod0 env0 (str ''2024-03'') 50000 None empty_store))
       = getBudgets zod0 empty_store
         @ [\<lparr>bid = randomUUID env0, yearMonth = str ''2024-03'', bcategory = None,
              limitCents = 50000\<rparr>]"
proof -
  let ?ym = "str ''2024-03''"
  let ?b1 = "march_budget\<lparr>limitCents := 60000\<rparr>"
  let ?b2 = "march_budget\<lparr>limitCents := 70000\<rparr>"
  let ?st1 = "budget_store\<lparr>ls_budgets := Some [?b1]\<rparr>"
  let ?st2 = "budget_store\<lparr>ls_budgets := Some [?b2]\<rparr>"
  let ?nb = "\<lparr>bid = randomUUID env0, yearMonth = ?ym, bcategory = None, limitCents = 50000\<rparr>"
  have d: "distinct (map budget_key (getBudgets zod0 budget_store))"
    by (simp add: budget_store_read)
  have e1: "setBudget zod0 env0 ?ym 60000 None budget_store = (Inr ?b1, ?st1)"
    using setBudget_march [of 50000 60000] by (simp add: budget_store_def march_budget_def)
  have e2: "setBudget zod0 env0 ?ym 70000 None ?st1 = (Inr ?b2, ?st2)"
    using setBudget_march [of 60000 70000] by simp
  have x: "march_budget \<in> set (getBudgets zod0 budget_store)"
      "budget_key march_budget = (?ym, None)"
    by (simp_all add: budget_store_read budget_key_def march_budget_def)
  have g0: "getBudgets zod0 empty_store = []"
    by (simp add: getBudgets_def empty_store_def)
  have d0: "distinct (map budget_key (getBudgets zod0 empty_store))"
    and n0: "\<forall>x \<in> set (getBudgets zod0 empty_store). budget_key x \<noteq> (?ym, None)"
    by (simp_all add: g0)
  note A = setBudget_upsert [OF d, where env = env0 and ym = ?ym and limit = 60000
      and cat = None and b_first = ?b1 and st_first = ?st1 and env_second = env0
      and limit_second = 70000 and b_second = ?b2 and st_second = ?st2]
  note B = setBudget_upsert [OF d0, where env = env0 and ym = ?ym and limit = 50000
      and cat = None and b_first = ?nb and st_first = empty_store and env_second = env0
      and limit_second = 50000 and b_second = ?nb and st_second = empty_store]
  have two: "filter (\<lambda>x. budget_key x = (?ym, None)) (getBudgets zod0 ?st2) = [?b2]
             \<and> bid ?b2 = bid ?b1"
    using A e1 e2 by blast
  have repl: "\<exists>i < length (getBudgets zod0 budget_store).
                getBudgets zod0 ?st1 = (getBudgets zod0 budget_store)[i := ?b1]"
    using A x unfolding e1 by auto
  have app: "getBudgets zod0 (snd (setBudget zod0 env0 ?ym 50000 None empty_store))
             = getBudgets zod0 empty_store @ [?nb]"
    using B n0 unfolding setBudget_fresh by auto
  show ?thesis
    using d e1 e2 two x repl d0 g0 app by blast
qed

section \<open>Properties of month scoping and entry validation\<close>

lemma split_ym: "map Number (split 45 (str ''2024-03'')) = [Some 2024, Some 3]"
  by (simp add: Number_def digits_value_def char_defs)

lemma Date_local_eval:
  "Date_local 60 2024 2 1 = Some 1709247600000"
  "Date_local 60 2024 3 0 = Some 1711839600000"
  "Date_local 0 2024 2 1 = Some 1709251200000"
  "Date_local 0 2024 3 0 = Some 1711843200000"
  unfolding Date_local_def MakeDay_def days_from_civil_def TimeClip_def msPerDay_def Let_def
  by simp_all

lemma iso_feb29: "toISOString 1709247600000 = str ''2024-02-29T23:00:00.000Z''"
  by (subst toISOString_civil [of _ 2024 2 29])
     (simp_all add: civil_eval iso_year_def pad_def str_def)

lemma iso_mar30: "toISOString 1711839600000 = str ''2024-03-30T23:00:00.000Z''"
  by (subst toISOString_civil [of _ 2024 3 30])
     (simp_all add: civil_eval iso_year_def pad_def str_def)

lemma iso_mar01: "toISOString 1709251200000 = str ''2024-03-01T00:00:00.000Z''"
  by (subst toISOString_civil [of _ 2024 3 1])
     (simp_all add: civil_eval iso_year_def pad_def str_def)

lemma iso_mar31: "toISOString 1711843200000 = str ''2024-03-31T00:00:00.000Z''"
  by (subst toISOString_civil [of _ 2024 3 31])
     (simp_all add: civil_eval iso_year_def pad_def str_def)

lemma range_utc1:
  "getMonthRange 60 (str ''2024-03'') = Some (str ''2024-02-29'', str ''2024-03-30'')"
  by (simp add: getMonthRange_def split_ym Date_local_eval iso_feb29 iso_mar30)
     (simp add: before_T_def str_def)

lemma range_utc:
  "getMonthRange 0 (str ''2024-03'') = Some (str ''2024-03-01'', str ''2024-03-31'')"
  by (simp add: getMonthRange_def split_ym Date_local_eval iso_mar01 iso_mar31)
     (simp add: before_T_def str_def)


text \<open>
  C6 fails on the code wherever local time is ahead of UTC. One hour east of Greenwich
  the range computed for \<open>2024-03\<close> runs from 2024-02-29 to 2024-03-30: midnight local
  time of the first and of the last day of the month, printed in UTC, falls on the day
  before. The expense of the last day of March is left out and the expense of the leap
  day is taken in. With local time equal to UTC the range is the calendar month.
\<close>

theorem getExpensesForMonth_shifted_east_of_utc:
  "getMonthRange 60 (str ''2024-03'') = Some (str ''2024-02-29'', str ''2024-03-30'')
   \<and> getExpensesForMonth 60 [leap_day_expense, lunch, month_end_expense] (str ''2024-03'')
       = Some [leap_day_expense, lunch]
   \<and> getMonthRange 0 (str ''2024-03'') = Some (str ''2024-03-01'', str ''2024-03-31'')
   \<and> getExpensesForMonth 0 [leap_day_expense, lunch, month_end_expense] (str ''2024-03'')
       = Some [lunch, month_end_expense]"
  unfolding getExpensesForMonth_def range_utc1 range_utc
  by (simp_all add: leap_day_expense_def month_end_expense_def lunch_def str_def)

lemma parse_2000: "Date_parse (str ''2000-01-01'') = Some 946684800000"
  unfolding Date_parse_def parse_ymd_def days_in_month_def days_from_civil_def Let_def
  by (simp add: is_date_only_def digits_value_def msPerDay_def char_defs)

lemma validateExpense_messages:
  "set (validateExpense parse tz t e) \<subseteq>
     {str ''Amount must be greater than 0'', str ''Category is required'',
      str ''Date cannot be in the future''}"
  by (auto simp: validateExpense_def split: option.splits if_splits)

text \<open>
  C9 fails on the code. \<open>validateExpense\<close> has three checks (amount greater than zero,
  category present, date not in the future) and no other message can appear in its
  result. For an entry dated 2000-01-01, validated on 2024-03-15, it returns the empty
  list.
\<close>

theorem validateExpense_accepts_old_date:
  "Date_parse (str ''2000-01-01'') = Some 946684800000
   \<and> toISOString 1710504000000 = str ''2024-03-15T12:00:00.000Z''
   \<and> validateExpense Date_parse 60 1710504000000 old_entry = []"
  by (simp add: validateExpense_def old_entry_def no_updates_def truthy_def parse_2000 now_iso
      end_of_local_day_def msPerDay_def)
     (simp_all add: str_def)

section \<open>Properties of the import and export codec\<close>

lemma length_pad: "k \<le> length (pad k n)"
  by (simp add: pad_def)

lemma toISOString_long: "20 \<le> length (toISOString t)"
proof -
  have "length (toISOString t) =
          length (iso_year (fst (civil_from_days (t div msPerDay)))) + 7
          + length (pad 2 (nat (fst (snd (civil_from_days (t div msPerDay))))))
          + length (pad 2 (nat (snd (snd (civil_from_days (t div msPerDay))))))
          + length (pad 2 (nat (t mod msPerDay) div 3600000))
          + length (pad 2 (nat (t mod msPerDay) div 60000 mod 60))
          + length (pad 2 (nat (t mod msPerDay) div 1000 mod 60))
          + length (pad 3 (nat (t mod msPerDay) mod 1000))"
    by (simp add: toISOString_def Let_def)
  then show ?thesis
    using length_pad [of 2 "nat (fst (snd (civil_from_days (t div msPerDay))))"]
      length_pad [of 2 "nat (snd (snd (civil_from_days (t div msPerDay))))"]
      length_pad [of 2 "nat (t mod msPerDay) div 3600000"]
      length_pad [of 2 "nat (t mod msPerDay) div 60000 mod 60"]
      length_pad [of 2 "nat (t mod msPerDay) div 1000 mod 60"]
      length_pad [of 3 "nat (t mod msPerDay) mod 1000"]
    by linarith
qed

lemma created_paidAt_not_date_only:
  assumes "createExpenseFromCSVRow parse env row cur existing allow = Some e"
  shows "\<not> is_date_only (paidAt e)"
proof -
  obtain t where "paidAt e = toISOString t"
    using assms
    by (auto simp: createExpenseFromCSVRow_def split: if_splits option.splits)
  then show ?thesis
    using toISOString_long [of t] by (simp add: is_date_only_def)
qed

lemma created_never_valid:
  "createExpenseFromCSVRow parse env row cur existing allow = Some e \<Longrightarrow> \<not> ExpenseSchema z e"
  using created_paidAt_not_date_only by (auto simp: ExpenseSchema_def)

lemma parse_eval:
  "Date_parse (str ''2024-01-05'') = Some 1704412800000"
  "Date_parse (str ''2024-03-15'') = Some 1710460800000"
  unfolding Date_parse_def parse_ymd_def days_in_month_def days_from_civil_def Let_def
  by (simp_all add: is_date_only_def digits_value_def msPerDay_def char_defs)

lemma iso_jan05: "toISOString 1704412800000 = str ''2024-01-05T00:00:00.000Z''"
  by (subst toISOString_civil [of _ 2024 1 5])
     (simp_all add: civil_eval iso_year_def pad_def str_def)

lemma iso_mar15: "toISOString 1710460800000 = str ''2024-03-15T00:00:00.000Z''"
  by (subst toISOString_civil [of _ 2024 3 15])
     (simp_all add: civil_eval iso_year_def pad_def str_def)

lemma parseFloat_eval:
  "parseFloat (str ''12.50'') = Some (1250, - 2)"
  "parseFloat (str ''15.99'') = Some (1599, - 2)"
  by (simp_all add: parseFloat_def parse_exponent_def digits_value_def Let_def char_defs)

lemma round_cents_eval: "round_cents (1250, - 2) = 1250" "round_cents (1599, - 2) = 1599"
  by (simp_all add: round_cents_def Let_def)


lemma travel_row_props:
  "row_prop travel_row ''date'' = Some (str ''2024-01-05'')"
  "row_prop travel_row ''amount'' = Some (str ''12.50'')"
  "row_prop travel_row ''category'' = Some (str ''Travel'')"
  "row_prop travel_row ''currency'' = None"
  "row_prop travel_row ''note'' = None"
  "row_prop travel_row ''payment_method'' = None"
  by (simp_all add: row_prop_def map_get_def travel_row_def str_def)

lemma nonempty_texts:
  "str ''2024-01-05'' \<noteq> []" "str ''12.50'' \<noteq> []" "str ''Travel'' \<noteq> []"
  "str ''2024-03-15'' \<noteq> []" "str ''15.99'' \<noteq> []" "str ''Food'' \<noteq> []"
  "str ''EUR'' \<noteq> []" "str ''Card'' \<noteq> []"
  by (simp_all add: str_def)

lemma trim_texts:
  "trim (str ''Travel'') = str ''Travel''" "trim (str ''Food'') = str ''Food''"
  "trim (str ''Card'') = str ''Card''" "trim [] = []"
  by (simp_all add: char_defs)

lemma travel_created:
  "createExpenseFromCSVRow Date_parse env0 travel_row (str ''EUR'') [] False
   = Some travel_expense"
  by (simp add: createExpenseFromCSVRow_def travel_row_props truthy_def or_empty_def
      nonempty_texts trim_texts parse_eval parseFloat_eval round_cents_eval iso_jan05
      env0_def now_iso travel_expense_def)

text \<open>
  C3 fails on the code. The row \<open>2024-01-05,12.50,Travel\<close> gives an expense whose
  \<open>paidAt\<close> is the full timestamp \<open>2024-01-05T00:00:00.000Z\<close>, which the date pattern of
  the storage schema refuses, so \<open>saveExpenses\<close> rejects the collection that holds it.
  By \<open>created_never_valid\<close> this is so for every expense the import builds.
\<close>

theorem imported_expense_fails_schema:
  "createExpenseFromCSVRow Date_parse env0 travel_row (str ''EUR'') [] False
     = Some travel_expense
   \<and> paidAt travel_expense = str ''2024-01-05T00:00:00.000Z''
   \<and> \<not> is_date_only (paidAt travel_expense)
   \<and> \<not> ExpenseSchema zod0 travel_expense
   \<and> fst (saveExpenses zod0 env0 ([] @ [travel_expense]) empty_store) = Inl InvalidExpenseData
   \<and> ls_expenses (snd (saveExpenses zod0 env0 ([] @ [travel_expense]) empty_store)) = None"
proof -
  have d: "\<not> is_date_only (paidAt travel_expense)"
    by (simp add: travel_expense_def is_date_only_def str_def)
  then have v: "\<not> ExpenseSchema zod0 travel_expense"
    by (simp add: ExpenseSchema_def)
  have r: "fst (checkRateLimit (str ''saveExpenses'') 50 60000 (now env0)
                 (operationCounts empty_store))"
    by (simp add: checkRateLimit_def map_get_def empty_store_def)
  have m: "travel_expense \<in> set ([] @ [travel_expense])" by simp
  have s: "fst (saveExpenses zod0 env0 ([] @ [travel_expense]) empty_store)
             = Inl InvalidExpenseData
           \<and> ls_expenses (snd (saveExpenses zod0 env0 ([] @ [travel_expense]) empty_store))
             = None"
    using v r
    by (auto simp: saveExpenses_def validateExpenseData_def empty_store_def Let_def
        split: prod.splits)
  show ?thesis
    using travel_created d v s by (simp add: travel_expense_def)
qed


text \<open>
  The row passes the three guards of \<open>createExpenseFromCSVRow\<close>: the date, the amount
  and the category are present.
\<close>

theorem imported_expense_fails_schema_witness:
  "truthy (row_prop travel_row ''date'') \<and> truthy (row_prop travel_row ''amount'')
   \<and> truthy (row_prop travel_row ''category'')
   \<and> createExpenseFromCSVRow Date_parse env0 travel_row (str ''EUR'') [] False
       = Some travel_expense
   \<and> \<not> ExpenseSchema zod0 travel_expense"
  using imported_expense_fails_schema
  by (simp add: travel_row_props truthy_def nonempty_texts)

lemma quiet_lunch_export: "exportToCSV [quiet_lunch] = Inr quiet_lunch_csv"
  by (simp add: exportToCSV_def quiet_lunch_def lunch_def csv_headers_def toFixed2_def
      or_empty_def before_T_def pad_def quiet_lunch_csv_def str_def Let_def)

lemma quiet_lunch_lines:
  "split 10 quiet_lunch_csv =
     [65279 # str ''date,amount,currency,category,note,payment_method'',
      str ''2024-03-15,15.99,EUR,Food,,Card'']"
  by (simp add: quiet_lunch_csv_def str_def)

lemma quiet_lunch_headers:
  "map trim (split 44 (65279 # str ''date,amount,currency,category,note,payment_method''))
     = csv_headers"
  by (simp add: csv_headers_def char_defs)

lemma headers_accepted: "validateCSVHeaders csv_headers = []"
  by (simp add: validateCSVHeaders_def csv_headers_def str_def Let_def)

lemma quiet_lunch_row:
  "make_row csv_headers (map trim (split 44 (trim (str ''2024-03-15,15.99,EUR,Food,,Card''))))
     = [(str ''date'', str ''2024-03-15''), (str ''amount'', str ''15.99''),
        (str ''currency'', str ''EUR''), (str ''category'', str ''Food''),
        (str ''note'', []), (str ''payment_method'', str ''Card'')]"
  by (simp add: make_row_def csv_headers_def value_at_def upt_rec char_defs)


lemma quiet_row_props:
  "row_prop [(str ''date'', str ''2024-03-15''), (str ''amount'', str ''15.99''),
        (str ''currency'', str ''EUR''), (str ''category'', str ''Food''),
        (str ''note'', []), (str ''payment_method'', str ''Card'')] ''date''
   = Some (str ''2024-03-15'')"
  "row_prop [(str ''date'', str ''2024-03-15''), (str ''amount'', str ''15.99''),
        (str ''currency'', str ''EUR''), (str ''category'', str ''Food''),
        (str ''note'', []), (str ''payment_method'', str ''Card'')] ''amount''
   = Some (str ''15.99'')"
  "row_prop [(str ''date'', str ''2024-03-15''), (str ''amount'', str ''15.99''),
        (str ''currency'', str ''EUR''), (str ''category'', str ''Food''),
        (str ''note'', []), (str ''payment_method'', str ''Card'')] ''currency''
   = Some (str ''EUR'')"
  "row_prop [(str ''date'', str ''2024-03-15''), (str ''amount'', str ''15.99''),
        (str ''currency'', str ''EUR''), (str ''category'', str ''Food''),
        (str ''note'', []), (str ''payment_method'', str ''Card'')] ''category''
   = Some (str ''Food'')"
  "row_prop [(str ''date'', str ''2024-03-15''), (str ''amount'', str ''15.99''),
        (str ''currency'', str ''EUR''), (str ''category'', str ''Food''),
        (str ''note'', []), (str ''payment_method'', str ''Card'')] ''note''
   = Some []"
  "row_prop [(str ''date'', str ''2024-03-15''), (str ''amount'', str ''15.99''),
        (str ''currency'', str ''EUR''), (str ''category'', str ''Food''),
        (str ''note'', []), (str ''payment_method'', str ''Card'')] ''payment_method''
   = Some (str ''Card'')"
  by (simp_all add: row_prop_def map_get_def str_def)

lemma quiet_lunch_reimported:
  "createExpenseFromCSVRow Date_parse (env0\<lparr>randomUUID := randomUUID env0\<rparr>)
     [(str ''date'', str ''2024-03-15''), (str ''amount'', str ''15.99''),
      (str ''currency'', str ''EUR''), (str ''category'', str ''Food''),
      (str ''note'', []), (str ''payment_method'', str ''Card'')]
     (str ''EUR'') [quiet_lunch] False
   = Some reimported_lunch"
  by (simp add: createExpenseFromCSVRow_def quiet_row_props truthy_def or_empty_def
      nonempty_texts trim_texts parse_eval parseFloat_eval round_cents_eval iso_mar15
      env0_def now_iso reimported_lunch_def quiet_lunch_def)

lemma line_nonempty: "trim (str ''2024-03-15,15.99,EUR,Food,,Card'') \<noteq> []"
  by (simp add: char_defs)

text \<open>
  C4 fails on the code. A valid stored expense without a note is exported with an empty
  note column; on import the duplicate test compares the stored note, which is
  undefined, with the empty text of the row, finds no duplicate, and the row is imported
  as a new expense.
\<close>

theorem reimport_misses_duplicate_without_note:
  "ExpenseSchema zod0 quiet_lunch
   \<and> exportToCSV [quiet_lunch] = Inr quiet_lunch_csv
   \<and> importCSV Date_parse env0 (\<lambda>i. randomUUID env0) quiet_lunch_csv (str ''EUR'')
         [quiet_lunch] False
       = Some (1, 0, [reimported_lunch])"
proof -
  have v: "ExpenseSchema zod0 quiet_lunch"
    by (simp add: ExpenseSchema_def zod0_def quiet_lunch_def lunch_def uuid_format_def
        datetime_format_def is_hex_def is_currency_code_def is_date_only_def max_len_def
        char_defs)
  have i: "importCSV Date_parse env0 (\<lambda>i. randomUUID env0) quiet_lunch_csv (str ''EUR'')
             [quiet_lunch] False
           = Some (1, 0, [reimported_lunch])"
    by (simp only: importCSV_def quiet_lunch_lines list.case Let_def quiet_lunch_headers
        headers_accepted import_lines.simps quiet_lunch_row quiet_lunch_reimported
        line_nonempty)
       simp
  show ?thesis
    using v quiet_lunch_export i by simp
qed

end
